theory Spec2Isabelle
  imports Main "HOL-Library.AList"
begin


section \<open>Python values and errors\<close>

text \<open>
  The module \<open>parler/singleformadmin.py\<close> is Python 2 code: \<open>zip\<close> returns a list that
  is subscripted, and dictionaries are read with \<open>[]\<close>. Every exception the module can
  raise itself is a constructor of \<open>py_error\<close>; a function that can raise returns
  \<open>py_error + 'a\<close> with \<open>Inl\<close> for the exception.
\<close>

datatype py_error = TypeError | IndexError | KeyError | ValueError | AttributeError

section \<open>Settings and generated field names\<close>

text \<open>
  \<open>appsettings.PARLER_LANGUAGES\<close> is a dictionary from a site id to a tuple of language
  dictionaries; the module reads only the entry \<open>'code'\<close> of each dictionary, so a
  language dictionary is a record with this one field. \<open>SITE_ID\<close> is read with
  \<open>getattr(settings, 'SITE_ID', None)\<close>: \<open>None\<close> is the absent setting, and it is then
  the key that is looked up, so the dictionary is keyed by \<open>int option\<close>: the entry under
  \<open>None\<close> gives the languages of a project without \<open>SITE_ID\<close>.
\<close>

record lang_dict =
  code :: string

record settings =
  SITE_ID :: "int option"
  PARLER_LANGUAGES :: "int option \<rightharpoonup> lang_dict list"
  PARLER_DEFAULT_LANGUAGE_CODE :: string
  PARLER_BACKEND :: string

text \<open>
  \<open>_get_available_language_codes\<close>: \<open>PARLER_LANGUAGES.get(site_id, ())\<close> gives the empty
  tuple when the dictionary has no entry for the site id.
\<close>

definition get_available_language_codes :: "settings \<Rightarrow> string list" where
  "get_available_language_codes s =
     (case PARLER_LANGUAGES s (SITE_ID s) of
        None \<Rightarrow> []
      | Some lang_dicts \<Rightarrow> map code lang_dicts)"

definition format_name :: "string \<Rightarrow> string \<Rightarrow> string" where
  "format_name name c = name @ ''_'' @ c"

definition get_translated_fields_names :: "settings \<Rightarrow> string \<Rightarrow> (string \<times> string) list" where
  "get_translated_fields_names s name =
     map (\<lambda>c. (c, format_name name c)) (get_available_language_codes s)"

definition get_default_language :: "settings \<Rightarrow> string" where
  "get_default_language s = PARLER_DEFAULT_LANGUAGE_CODE s"

text \<open>
  \<open>fields.index(name)\<close>: the position of the first occurrence, \<open>ValueError\<close> when there
  is none.
\<close>

fun list_index :: "'a list \<Rightarrow> 'a \<Rightarrow> py_error + nat" where
  "list_index [] x = Inl ValueError"
| "list_index (y # ys) x =
     (if y = x then Inr 0
      else (case list_index ys x of Inl e \<Rightarrow> Inl e | Inr i \<Rightarrow> Inr (Suc i)))"

definition replace_field :: "string list \<Rightarrow> string \<Rightarrow> string list \<Rightarrow> py_error + string list" where
  "replace_field flds name replacement =
     (case list_index flds name of
        Inl e \<Rightarrow> Inl e
      | Inr i \<Rightarrow> Inr (take i flds @ replacement @ drop (i + 1) flds))"

text \<open>
  \<open>dict(pairs)\<close> keeps the last value of a repeated key; \<open>d[key]\<close> raises \<open>KeyError\<close>
  on a missing key.
\<close>

definition py_dict :: "('k \<times> 'v) list \<Rightarrow> ('k \<rightharpoonup> 'v)" where
  "py_dict pairs = map_of (rev pairs)"

definition py_getitem :: "('k \<rightharpoonup> 'v) \<Rightarrow> 'k \<Rightarrow> py_error + 'v" where
  "py_getitem d k = (case d k of None \<Rightarrow> Inl KeyError | Some v \<Rightarrow> Inr v)"

section \<open>Translatable model instances\<close>

text \<open>
  One entry of the registry \<open>_parler_meta\<close>: the name of the translation source, the
  translated fields it backs (\<open>get_translated_fields()\<close>), and the value a field of a
  newly made translation holds before anything is assigned to it.
\<close>

record 'v parler_meta =
  translations_name :: string
  pm_translated_fields :: "string list"
  field_default :: "string \<Rightarrow> 'v"

text \<open>
  Modelled from the spec: the model instance of \<open>parler.models\<close> (not in src/), "one row
  per language per translated object". The instance holds its registry entries, its
  current language, and for a translation source and a language code the translation, if
  there is one: the values assigned to its fields.
\<close>

record 'v model_instance =
  inst_parler_meta :: "'v parler_meta list"
  current_language :: string
  inst_translations :: "string \<times> string \<rightharpoonup> (string \<rightharpoonup> 'v)"

text \<open>
  Modelled from the spec: \<open>instance.set_current_language(code)\<close> of \<open>parler.models\<close>
  (not in src/) makes \<open>code\<close> the language the instance reads and writes its translated
  fields in.
\<close>

definition set_current_language :: "string \<Rightarrow> 'v model_instance \<Rightarrow> 'v model_instance" where
  "set_current_language c inst = inst\<lparr>current_language := c\<rparr>"

text \<open>
  Modelled from the spec: the registry entry that backs a translated field, the first one
  that lists it (\<open>parler.models\<close>, not in src/).
\<close>

fun get_extension_by_field :: "'v parler_meta list \<Rightarrow> string \<Rightarrow> 'v parler_meta option" where
  "get_extension_by_field [] field = None"
| "get_extension_by_field (m # ms) field =
     (if field \<in> set (pm_translated_fields m) then Some m else get_extension_by_field ms field)"

text \<open>
  Modelled from the spec: \<open>setattr(instance, field, value)\<close> on a translated field
  (the field descriptor of \<open>parler.fields\<close>, not in src/) sets the field's value under
  the instance's current language, in the translation of the source that backs the field;
  a translation that does not exist yet is made, with no field assigned.
\<close>

definition setattr_translated :: "'v model_instance \<Rightarrow> string \<Rightarrow> 'v \<Rightarrow> 'v model_instance" where
  "setattr_translated inst field v =
     (case get_extension_by_field (inst_parler_meta inst) field of
        None \<Rightarrow> inst
      | Some m \<Rightarrow>
          (let key = (translations_name m, current_language inst);
               row = (case inst_translations inst key of None \<Rightarrow> Map.empty | Some r \<Rightarrow> r)
           in inst\<lparr>inst_translations := (inst_translations inst)(key \<mapsto> row(field \<mapsto> v))\<rparr>))"

text \<open>
  The value assigned to a translated field of the instance under a language, if any.
\<close>

definition translated_value :: "'v model_instance \<Rightarrow> string \<Rightarrow> string \<Rightarrow> 'v option" where
  "translated_value inst c field =
     (case get_extension_by_field (inst_parler_meta inst) field of
        None \<Rightarrow> None
      | Some m \<Rightarrow>
          (case inst_translations inst (translations_name m, c) of
             None \<Rightarrow> None
           | Some row \<Rightarrow> row field))"

datatype translation_error = TranslationDoesNotExist

text \<open>
  Modelled from the spec: \<open>instance._get_translated_model(meta=meta, language_code=code)\<close>
  of \<open>parler.models\<close> (not in src/): "a missing translation raises a framework-specific
  does-not-exist condition".
\<close>

definition get_translated_model ::
  "'v model_instance \<Rightarrow> 'v parler_meta \<Rightarrow> string \<Rightarrow> translation_error + (string \<rightharpoonup> 'v)" where
  "get_translated_model inst meta c =
     (case inst_translations inst (translations_name meta, c) of
        None \<Rightarrow> Inl TranslationDoesNotExist
      | Some row \<Rightarrow> Inr row)"

text \<open>
  \<open>getattr(translation, field)\<close>: the assigned value, or the field's default.
\<close>

definition getattr_translation :: "'v parler_meta \<Rightarrow> (string \<rightharpoonup> 'v) \<Rightarrow> string \<Rightarrow> 'v" where
  "getattr_translation meta row field =
     (case row field of None \<Rightarrow> field_default meta field | Some v \<Rightarrow> v)"

section \<open>TranslatableModelFormMixin\<close>

text \<open>
  \<open>_get_all_translated_fields_names\<close>: the generator over the fields of every registry
  entry of the instance, in order.
\<close>

definition get_all_translated_fields_names :: "'v model_instance \<Rightarrow> string list" where
  "get_all_translated_fields_names inst = concat (map pm_translated_fields (inst_parler_meta inst))"

text \<open>
  The inner loop of \<open>save_translated_fields\<close>, over the translated fields, for one
  language code. The lookup \<open>dict(...)[code]\<close> stands before the \<open>try\<close>, so its
  \<open>KeyError\<close> would leave the method; the \<open>KeyError\<close> of \<open>cleaned_data[code_field]\<close> is
  caught and the field skipped.
\<close>

fun save_fields ::
  "settings \<Rightarrow> (string \<rightharpoonup> 'v) \<Rightarrow> string \<Rightarrow> string list \<Rightarrow> 'v model_instance \<Rightarrow> py_error + 'v model_instance" where
  "save_fields s cleaned_data c [] inst = Inr inst"
| "save_fields s cleaned_data c (field # rest) inst =
     (case py_getitem (py_dict (get_translated_fields_names s field)) c of
        Inl e \<Rightarrow> Inl e
      | Inr code_field \<Rightarrow>
          (case py_getitem cleaned_data code_field of
             Inl e \<Rightarrow> save_fields s cleaned_data c rest inst
           | Inr v \<Rightarrow> save_fields s cleaned_data c rest (setattr_translated inst field v)))"

text \<open>The outer loop of \<open>save_translated_fields\<close>, over the language codes.\<close>

fun save_languages ::
  "settings \<Rightarrow> (string \<rightharpoonup> 'v) \<Rightarrow> string list \<Rightarrow> 'v model_instance \<Rightarrow> py_error + 'v model_instance" where
  "save_languages s cleaned_data [] inst = Inr inst"
| "save_languages s cleaned_data (c # cs) inst =
     (let inst1 = set_current_language c inst
      in case save_fields s cleaned_data c (get_all_translated_fields_names inst1) inst1 of
           Inl e \<Rightarrow> Inl e
         | Inr inst2 \<Rightarrow> save_languages s cleaned_data cs inst2)"

text \<open>
  \<open>save_translated_fields\<close>; \<open>active\<close> is what \<open>get_language()\<close> returns, the language
  active in the thread.
\<close>

definition save_translated_fields ::
  "settings \<Rightarrow> string \<Rightarrow> (string \<rightharpoonup> 'v) \<Rightarrow> 'v model_instance \<Rightarrow> py_error + 'v model_instance" where
  "save_translated_fields s active cleaned_data inst =
     (case save_languages s cleaned_data (get_available_language_codes s) inst of
        Inl e \<Rightarrow> Inl e
      | Inr inst' \<Rightarrow> Inr (set_current_language active inst'))"

text \<open>
  \<open>__init__\<close>, after the call of the base class has set \<open>self.initial\<close>: the innermost
  loop body, for one registry entry, one field and one pair of a language code and the
  generated name. \<open>setdefault\<close> keeps a value the dictionary already has.
\<close>

definition load_initial ::
  "'v model_instance \<Rightarrow> 'v parler_meta \<Rightarrow> string \<Rightarrow> string \<times> string \<Rightarrow> (string \<rightharpoonup> 'v) \<Rightarrow> (string \<rightharpoonup> 'v)" where
  "load_initial inst meta field p initial =
     (case get_translated_model inst meta (fst p) of
        Inl TranslationDoesNotExist \<Rightarrow> initial
      | Inr translation \<Rightarrow>
          (case initial (snd p) of
             Some old \<Rightarrow> initial
           | None \<Rightarrow> initial(snd p \<mapsto> getattr_translation meta translation field)))"

definition load_field ::
  "settings \<Rightarrow> 'v model_instance \<Rightarrow> 'v parler_meta \<Rightarrow> string \<Rightarrow> (string \<rightharpoonup> 'v) \<Rightarrow> (string \<rightharpoonup> 'v)" where
  "load_field s inst meta field initial =
     fold (load_initial inst meta field) (get_translated_fields_names s field) initial"

definition load_meta ::
  "settings \<Rightarrow> 'v model_instance \<Rightarrow> 'v parler_meta \<Rightarrow> (string \<rightharpoonup> 'v) \<Rightarrow> (string \<rightharpoonup> 'v)" where
  "load_meta s inst meta initial =
     fold (load_field s inst meta) (pm_translated_fields meta) initial"

text \<open>
  \<open>__init__\<close>: \<open>initial\<close> is \<open>self.initial\<close> as the base class left it, the instance is
  \<open>kwargs.get('instance', None)\<close>.
\<close>

definition form_init ::
  "settings \<Rightarrow> (string \<rightharpoonup> 'v) \<Rightarrow> 'v model_instance option \<Rightarrow> (string \<rightharpoonup> 'v)" where
  "form_init s initial inst_opt =
     (case inst_opt of
        None \<Rightarrow> initial
      | Some inst \<Rightarrow> fold (load_meta s inst) (inst_parler_meta inst) initial)"

section \<open>TranslatableModelFormMetaclass\<close>

text \<open>
  \<open>Meta.fields\<close> is \<open>None\<close>, the string \<open>'__all__'\<close>, or a sequence of field names (a
  list, and a tuple once \<open>_replace_field\<close> has made it).
\<close>

datatype fields_value = FieldsNone | FieldsAll | FieldsSeq "string list"

text \<open>
  A form field, with the three attributes the module assigns. A field made from a model
  field carries a label; \<open>None\<close> is Python's \<open>None\<close>.
\<close>

record form_field =
  required :: bool
  label :: "string option"
  language_code :: "string option"

text \<open>
  A translations model: \<open>get_translated_fields()\<close>, and for a field name the flag
  \<open>_meta.get_field(name).editable\<close>. The model of the form gives its translations models
  with \<open>_parler_meta.get_all_models()\<close>.
\<close>

record translations_model =
  get_translated_fields :: "string list"
  editable :: "string \<Rightarrow> bool"

record translatable_model =
  get_all_models :: "translations_model list"

text \<open>
  \<open>form_meta\<close> is the \<open>_meta\<close> of a base class, Django's \<open>ModelFormOptions\<close>, which always has
  the four attributes. The inner class \<open>Meta\<close> of the class being declared may lack any of
  them: the outer \<open>None\<close> of a field of \<open>meta_class\<close> is the absent attribute, read with
  \<open>getattr(form_new_meta, name, default)\<close>.
\<close>

record 'a form_options =
  fo_model :: "translatable_model option"
  fo_fields :: fields_value
  fo_exclude :: "string list option"
  fo_widgets :: "(string \<rightharpoonup> 'a) option"

record 'a meta_class =
  mc_model :: "translatable_model option option"
  mc_fields :: "fields_value option"
  mc_exclude :: "string list option option"
  mc_widgets :: "(string \<rightharpoonup> 'a) option option"

text \<open>
  The values of the class dictionary \<open>attrs\<close> and of the attributes of the base classes: a
  \<open>TranslatedField\<close> placeholder with its \<open>kwargs\<close>, a form field, the class \<open>Meta\<close>, or any
  other object (a method, the \<open>formfield_callback\<close>), named.
\<close>

datatype 'a attr_value =
    TranslatedField "string \<rightharpoonup> 'a"
  | FormField form_field
  | MetaClass "'a meta_class"
  | OtherObject string

text \<open>
  \<open>form_new_meta = attrs.get('Meta', form_meta)\<close> is a reference: to the class \<open>Meta\<close> of
  \<open>attrs\<close>, or to the object \<open>form_meta\<close> itself. The assignment
  \<open>form_new_meta.fields = ...\<close> changes the object referred to, so the state of the loop
  holds \<open>attrs\<close>, the declared class \<open>Meta\<close> if there is one, and \<open>form_meta\<close>. The entry
  \<open>'Meta'\<close> of \<open>attrs\<close> keeps naming the class; its attributes are read from
  \<open>form_new_meta\<close>.
\<close>

datatype 'a new_meta = FormMeta | Declared "'a meta_class"

record 'a form_state =
  attrs :: "(string \<times> 'a attr_value) list"
  form_new_meta :: "'a new_meta"
  form_meta :: "'a form_options"

definition getattr_fields :: "'a form_state \<Rightarrow> fields_value" where
  "getattr_fields st =
     (case form_new_meta st of
        FormMeta \<Rightarrow> fo_fields (form_meta st)
      | Declared mc \<Rightarrow> (case mc_fields mc of None \<Rightarrow> fo_fields (form_meta st) | Some v \<Rightarrow> v))"

definition getattr_exclude :: "'a form_state \<Rightarrow> string list option" where
  "getattr_exclude st =
     (case form_new_meta st of
        FormMeta \<Rightarrow> fo_exclude (form_meta st)
      | Declared mc \<Rightarrow> (case mc_exclude mc of None \<Rightarrow> fo_exclude (form_meta st) | Some v \<Rightarrow> v))"

definition getattr_widgets :: "'a form_state \<Rightarrow> (string \<rightharpoonup> 'a) option" where
  "getattr_widgets st =
     (case form_new_meta st of
        FormMeta \<Rightarrow> fo_widgets (form_meta st)
      | Declared mc \<Rightarrow> (case mc_widgets mc of None \<Rightarrow> fo_widgets (form_meta st) | Some v \<Rightarrow> v))"

text \<open>
  \<open>getattr(form_new_meta, 'widgets', form_meta.widgets) or ()\<close>: the widgets declared in
  \<open>Meta\<close>, by field name; \<open>None\<close> becomes \<open>()\<close>, which has no member.
\<close>

definition declared_widgets :: "'a form_state \<Rightarrow> (string \<rightharpoonup> 'a)" where
  "declared_widgets st = (case getattr_widgets st of None \<Rightarrow> Map.empty | Some w \<Rightarrow> w)"

definition setattr_fields :: "fields_value \<Rightarrow> 'a form_state \<Rightarrow> 'a form_state" where
  "setattr_fields v st =
     (case form_new_meta st of
        FormMeta \<Rightarrow> st\<lparr>form_meta := (form_meta st)\<lparr>fo_fields := v\<rparr>\<rparr>
      | Declared mc \<Rightarrow> st\<lparr>form_new_meta := Declared (mc\<lparr>mc_fields := Some v\<rparr>)\<rparr>)"

text \<open>
  \<open>zip(*translated_fields_names)[1]\<close> in Python 2: \<open>zip\<close> of no argument is the empty list,
  and its element 1 is an \<open>IndexError\<close>; of a list of pairs that is not empty, element 1
  is the tuple of the second components.
\<close>

definition zip_star_1 :: "('x \<times> 'y) list \<Rightarrow> py_error + 'y list" where
  "zip_star_1 pairs = (case pairs of [] \<Rightarrow> Inl IndexError | p # ps \<Rightarrow> Inr (map snd pairs))"

text \<open>
  The last loop of \<open>_handle_translation_model\<close>, which stores one form field per language
  in \<open>attrs\<close>. The helper \<open>_get_model_form_field\<close> of \<open>parler.forms\<close> is not in src/: it
  is the parameter \<open>gmff\<close>, which gets the translations model, the field name, the
  \<open>formfield_callback\<close> and the \<open>kwargs\<close>, and returns a new form field or \<open>None\<close>.
  Assigning an attribute of \<open>None\<close> raises \<open>AttributeError\<close>, and \<open>+=\<close> on a label that
  is \<open>None\<close> raises \<open>TypeError\<close>.
\<close>

fun store_fields ::
  "(translations_model \<Rightarrow> string \<Rightarrow> 'a attr_value option \<Rightarrow> (string \<rightharpoonup> 'a) \<Rightarrow> form_field option) \<Rightarrow>
   settings \<Rightarrow> translations_model \<Rightarrow> string \<Rightarrow> 'a attr_value option \<Rightarrow> (string \<rightharpoonup> 'a) \<Rightarrow>
   (string \<times> string) list \<Rightarrow> (string \<times> 'a attr_value) list \<Rightarrow>
   py_error + (string \<times> 'a attr_value) list" where
  "store_fields gmff s tm f_name cb kwargs [] a = Inr a"
| "store_fields gmff s tm f_name cb kwargs ((c, t_name) # rest) a =
     (case gmff tm f_name cb kwargs of
        None \<Rightarrow> Inl AttributeError
      | Some formfield \<Rightarrow>
          (case label formfield of
             None \<Rightarrow> Inl TypeError
           | Some l \<Rightarrow>
               store_fields gmff s tm f_name cb kwargs rest
                 (AList.update t_name
                    (FormField (formfield\<lparr>required := (c = get_default_language s),
                                           label := Some (l @ '' ('' @ c @ '')''),
                                           language_code := Some c\<rparr>)) a)))"

text \<open>
  The keyword arguments for the form fields of one translated field: the widget declared
  for it in \<open>Meta.widgets\<close>, if any, updated with the \<open>kwargs\<close> of a \<open>TranslatedField\<close>
  placeholder that a base class holds under the name of the field. The helper
  \<open>_get_mro_attribute\<close> of \<open>parler.forms\<close> is not in src/: \<open>mro name\<close> is what
  \<open>_get_mro_attribute(bases, name)\<close> returns.
\<close>

definition field_kwargs ::
  "(string \<rightharpoonup> 'a) \<Rightarrow> (string \<Rightarrow> 'a attr_value option) \<Rightarrow> string \<Rightarrow> (string \<rightharpoonup> 'a)" where
  "field_kwargs widgets mro f_name =
     (let kwargs = (case widgets f_name of None \<Rightarrow> Map.empty | Some w \<Rightarrow> [''widget'' \<mapsto> w])
      in case mro f_name of
           Some (TranslatedField placeholder_kwargs) \<Rightarrow> kwargs ++ placeholder_kwargs
         | _ \<Rightarrow> kwargs)"

text \<open>
  The body of the loop over the translated fields. The locals \<open>fields\<close> (here \<open>flds\<close>,
  \<open>None\<close> when all fields are meant), \<open>exclude\<close>, \<open>widgets\<close> and \<open>formfield_callback\<close> are
  read once, before the loop. \<open>translated_fields\<close> is the list of names that \<open>__new__\<close>
  passes: subscripting that list with the string \<open>f_name\<close> raises \<open>TypeError\<close>.
\<close>

definition handle_field ::
  "(translations_model \<Rightarrow> string \<Rightarrow> 'a attr_value option \<Rightarrow> (string \<rightharpoonup> 'a) \<Rightarrow> form_field option) \<Rightarrow>
   (string \<Rightarrow> 'a attr_value option) \<Rightarrow> settings \<Rightarrow> translations_model \<Rightarrow> string list \<Rightarrow>
   string list \<Rightarrow> string list option \<Rightarrow> string list \<Rightarrow> (string \<rightharpoonup> 'a) \<Rightarrow> 'a attr_value option \<Rightarrow>
   string \<Rightarrow> 'a form_state \<Rightarrow> py_error + 'a form_state" where
  "handle_field gmff mro s tm form_base_fields translated_fields flds exclude widgets cb f_name st =
     (if f_name \<in> set translated_fields then Inl TypeError
      else if f_name \<notin> set form_base_fields
              \<and> (case flds of None \<Rightarrow> True | Some l \<Rightarrow> f_name \<in> set l)
              \<and> f_name \<notin> set exclude
              \<and> map_of (attrs st) f_name = None
      then
        (let kwargs = field_kwargs widgets mro f_name
         in if \<not> editable tm f_name then Inr st
            else
              (let translated_fields_names = get_translated_fields_names s f_name
               in case (case flds of
                          None \<Rightarrow> Inr st
                        | Some l \<Rightarrow>
                            (case zip_star_1 translated_fields_names of
                               Inl e \<Rightarrow> Inl e
                             | Inr replacement \<Rightarrow>
                                 (case replace_field (if l = [] then [f_name] else l) f_name replacement of
                                    Inl e \<Rightarrow> Inl e
                                  | Inr new_fields \<Rightarrow> Inr (setattr_fields (FieldsSeq new_fields) st)))) of
                    Inl e \<Rightarrow> Inl e
                  | Inr st1 \<Rightarrow>
                      (case store_fields gmff s tm f_name cb kwargs translated_fields_names (attrs st1) of
                         Inl e \<Rightarrow> Inl e
                       | Inr a \<Rightarrow> Inr (st1\<lparr>attrs := a\<rparr>))))
      else Inr st)"

fun handle_fields ::
  "(translations_model \<Rightarrow> string \<Rightarrow> 'a attr_value option \<Rightarrow> (string \<rightharpoonup> 'a) \<Rightarrow> form_field option) \<Rightarrow>
   (string \<Rightarrow> 'a attr_value option) \<Rightarrow> settings \<Rightarrow> translations_model \<Rightarrow> string list \<Rightarrow>
   string list \<Rightarrow> string list option \<Rightarrow> string list \<Rightarrow> (string \<rightharpoonup> 'a) \<Rightarrow> 'a attr_value option \<Rightarrow>
   string list \<Rightarrow> 'a form_state \<Rightarrow> py_error + 'a form_state" where
  "handle_fields gmff mro s tm form_base_fields translated_fields flds exclude widgets cb [] st = Inr st"
| "handle_fields gmff mro s tm form_base_fields translated_fields flds exclude widgets cb (f_name # rest) st =
     (case handle_field gmff mro s tm form_base_fields translated_fields flds exclude widgets cb f_name st of
        Inl e \<Rightarrow> Inl e
      | Inr st' \<Rightarrow>
          handle_fields gmff mro s tm form_base_fields translated_fields flds exclude widgets cb rest st')"

text \<open>
  \<open>_handle_translation_model\<close>. \<open>'__all__'\<close> becomes \<open>None\<close>; \<open>exclude\<close> and \<open>widgets\<close>
  that are \<open>None\<close> or empty become \<open>()\<close>, which has no member.
\<close>

definition handle_translation_model ::
  "(translations_model \<Rightarrow> string \<Rightarrow> 'a attr_value option \<Rightarrow> (string \<rightharpoonup> 'a) \<Rightarrow> form_field option) \<Rightarrow>
   (string \<Rightarrow> 'a attr_value option) \<Rightarrow> settings \<Rightarrow> translations_model \<Rightarrow> string list \<Rightarrow>
   string list \<Rightarrow> 'a form_state \<Rightarrow> py_error + 'a form_state" where
  "handle_translation_model gmff mro s tm form_base_fields translated_fields st =
     (let flds = (case getattr_fields st of
                    FieldsNone \<Rightarrow> None
                  | FieldsAll \<Rightarrow> None
                  | FieldsSeq l \<Rightarrow> Some l);
          exclude = (case getattr_exclude st of None \<Rightarrow> [] | Some l \<Rightarrow> l);
          widgets = declared_widgets st;
          cb = map_of (attrs st) ''formfield_callback''
      in handle_fields gmff mro s tm form_base_fields translated_fields flds exclude widgets cb
           (get_translated_fields tm) st)"

fun handle_models ::
  "(translations_model \<Rightarrow> string \<Rightarrow> 'a attr_value option \<Rightarrow> (string \<rightharpoonup> 'a) \<Rightarrow> form_field option) \<Rightarrow>
   (string \<Rightarrow> 'a attr_value option) \<Rightarrow> settings \<Rightarrow> string list \<Rightarrow> string list \<Rightarrow>
   translations_model list \<Rightarrow> 'a form_state \<Rightarrow> py_error + 'a form_state" where
  "handle_models gmff mro s form_base_fields translated_fields [] st = Inr st"
| "handle_models gmff mro s form_base_fields translated_fields (tm # tms) st =
     (case handle_translation_model gmff mro s tm form_base_fields translated_fields st of
        Inl e \<Rightarrow> Inl e
      | Inr st' \<Rightarrow> handle_models gmff mro s form_base_fields translated_fields tms st')"

text \<open>
  What \<open>__new__\<close> hands to \<open>create_cls()\<close>, the constructor of Django's
  \<open>ModelFormMetaclass\<close>: the class dictionary as it was given, on the three early paths, or
  the state the loop over the translations models has left.
\<close>

datatype 'a created = Untouched "(string \<times> 'a attr_value) list" | Handled "'a form_state"

text \<open>
  \<open>form_new_meta = attrs.get('Meta', form_meta)\<close> and
  \<open>form_model = form_new_meta.model if form_new_meta else form_meta.model\<close>. A class and
  an options object are true. An object under \<open>'Meta'\<close> that is not a class \<open>Meta\<close>, and a
  class \<open>Meta\<close> without \<open>model\<close>, have no attribute \<open>model\<close>.
\<close>

definition get_form_new_meta ::
  "'a form_options \<Rightarrow> (string \<times> 'a attr_value) list \<Rightarrow>
   py_error + 'a new_meta \<times> translatable_model option" where
  "get_form_new_meta fm attrs0 =
     (case map_of attrs0 ''Meta'' of
        None \<Rightarrow> Inr (FormMeta, fo_model fm)
      | Some (MetaClass mc) \<Rightarrow>
          (case mc_model mc of
             None \<Rightarrow> Inl AttributeError
           | Some form_model \<Rightarrow> Inr (Declared mc, form_model))
      | Some other \<Rightarrow> Inl AttributeError)"

text \<open>
  The placeholders of this class level: the names of \<open>attrs\<close> whose value is a
  \<open>TranslatedField\<close>.
\<close>

definition detect_placeholders :: "(string \<times> 'a attr_value) list \<Rightarrow> string list" where
  "detect_placeholders attrs0 =
     map fst (filter (\<lambda>(f_name, attr_value).
                         case attr_value of TranslatedField kw \<Rightarrow> True | _ \<Rightarrow> False) attrs0)"

text \<open>
  \<open>TranslatableModelFormMetaclass.__new__\<close>. \<open>form_meta_opt\<close> is
  \<open>_get_mro_attribute(bases, '_meta')\<close> and \<open>form_base_fields\<close> the names in
  \<open>_get_mro_attribute(bases, 'base_fields', {})\<close>.
\<close>

definition metaclass_new ::
  "(translations_model \<Rightarrow> string \<Rightarrow> 'a attr_value option \<Rightarrow> (string \<rightharpoonup> 'a) \<Rightarrow> form_field option) \<Rightarrow>
   (string \<Rightarrow> 'a attr_value option) \<Rightarrow> settings \<Rightarrow> 'a form_options option \<Rightarrow> string list \<Rightarrow>
   (string \<times> 'a attr_value) list \<Rightarrow> py_error + 'a created" where
  "metaclass_new gmff mro s form_meta_opt form_base_fields attrs0 =
     (case form_meta_opt of
        None \<Rightarrow> Inr (Untouched attrs0)
      | Some fm \<Rightarrow>
          (case get_form_new_meta fm attrs0 of
             Inl e \<Rightarrow> Inl e
           | Inr (new_meta, form_model) \<Rightarrow>
               (let translated_fields = detect_placeholders attrs0
                in case form_model of
                     None \<Rightarrow> Inr (Untouched attrs0)
                   | Some model \<Rightarrow>
                       (case handle_models gmff mro s form_base_fields translated_fields
                               (get_all_models model)
                               \<lparr>attrs = attrs0, form_new_meta = new_meta, form_meta = fm\<rparr> of
                          Inl e \<Rightarrow> Inl e
                        | Inr st \<Rightarrow> Inr (Handled st)))))"

section \<open>The registry of translation sources\<close>

text \<open>
  Modelled from the spec: the registry \<open>_parler_meta\<close> of a model (the class
  \<open>ParlerOptions\<close> of \<open>parler.models\<close>, not in src/), "a metadata registry recording, per
  inheritance level, which translation model/JSON field backs which set of translatable
  fields, and how multiple inheritance levels chain to a root". The registry of a model
  is the entry of its own level, chained to the registry of its base model when it has
  one; a proxy model with translations of its own and a model that inherits from a
  translatable model both chain to their base in this way.
\<close>

datatype 'v parler_options = ParlerOptions (base: "'v parler_options option") (own: "'v parler_meta")

text \<open>
  Modelled from the spec: the entries the registry holds, one per inheritance level, the
  base's entries first ("proxy models reuse the base's registry while stacking their
  own"). \<open>len\<close> and \<open>getitem\<close> are \<open>len(_parler_meta)\<close> and \<open>_parler_meta[i]\<close> of the tests.
\<close>

fun extensions :: "'v parler_options \<Rightarrow> 'v parler_meta list" where
  "extensions (ParlerOptions None m) = [m]"
| "extensions (ParlerOptions (Some b) m) = extensions b @ [m]"

definition len :: "'v parler_options \<Rightarrow> nat" where
  "len po = length (extensions po)"

definition getitem :: "'v parler_options \<Rightarrow> nat \<Rightarrow> py_error + 'v parler_meta" where
  "getitem po i = (if i < length (extensions po) then Inr (extensions po ! i) else Inl IndexError)"

text \<open>
  Modelled from the spec: \<open>_parler_meta.root\<close>, the first entry of the registry, and
  \<open>_parler_meta.root_translations_name\<close>, its translations name.
\<close>

definition root :: "'v parler_options \<Rightarrow> py_error + 'v parler_meta" where
  "root po = getitem po 0"

definition root_translations_name :: "'v parler_options \<Rightarrow> py_error + string" where
  "root_translations_name po = (case root po of Inl e \<Rightarrow> Inl e | Inr m \<Rightarrow> Inr (translations_name m))"

text \<open>
  The top-most inherited translation source of a registry: the entry of the level that
  has no base.
\<close>

fun top_most :: "'v parler_options \<Rightarrow> 'v parler_meta" where
  "top_most (ParlerOptions None m) = m"
| "top_most (ParlerOptions (Some b) m) = top_most b"

section \<open>The article list view\<close>

text \<open>
  An article of the example application, as the two backends store it: the language codes
  of its rows in the joined translation table \<open>translations\<close>, and the keys of its JSON
  document \<open>translations_data\<close>, which holds all languages inline.
\<close>

record article =
  art_id :: nat
  published :: bool
  art_translations :: "string list"
  art_translations_data :: "string list"

text \<open>The keyword arguments the views pass to \<open>filter\<close>.\<close>

datatype lookup =
    Published_eq bool
  | Translations_data_has string
  | Translations_language_code_eq string

text \<open>
  A queryset: the rows of the table of the model, and the filters applied so far.
  \<open>filter\<close> adds one.
\<close>

record queryset =
  qs_rows :: "article list"
  qs_filters :: "lookup list"

definition filter_qs :: "lookup \<Rightarrow> queryset \<Rightarrow> queryset" where
  "filter_qs l qs = qs\<lparr>qs_filters := qs_filters qs @ [l]\<rparr>"

text \<open>
  What Django's ORM returns for one filter: a filter on a column or on the keys of the
  JSON document keeps the rows that match; a filter through the joined translation table
  gives a row once for every translation row that matches.
\<close>

fun apply_lookup :: "lookup \<Rightarrow> article list \<Rightarrow> article list" where
  "apply_lookup (Published_eq b) rows = filter (\<lambda>a. published a = b) rows"
| "apply_lookup (Translations_data_has l) rows = filter (\<lambda>a. l \<in> set (art_translations_data a)) rows"
| "apply_lookup (Translations_language_code_eq l) rows =
     concat (map (\<lambda>a. map (\<lambda>c. a) (filter (\<lambda>c. c = l) (art_translations a))) rows)"

definition evaluate :: "queryset \<Rightarrow> article list" where
  "evaluate qs = fold apply_lookup (qs_filters qs) (qs_rows qs)"

text \<open>\<open>JSON_BACKEND = settings.PARLER_BACKEND == 'json'\<close>\<close>

definition JSON_BACKEND :: "settings \<Rightarrow> bool" where
  "JSON_BACKEND s = (PARLER_BACKEND s = ''json'')"

text \<open>
  \<open>BaseArticleMixin.get_queryset\<close>; \<open>super_queryset\<close> is what the next class in the order
  of resolution returns, for \<open>ArticleListView\<close> the queryset of all articles of \<open>ListView\<close>.
\<close>

definition BaseArticleMixin_get_queryset :: "queryset \<Rightarrow> queryset" where
  "BaseArticleMixin_get_queryset super_queryset = filter_qs (Published_eq True) super_queryset"

text \<open>
  \<open>ArticleListView.get_queryset\<close>; \<open>language\<close> is what \<open>get_language()\<close> returns, and
  \<open>super()\<close> is \<open>BaseArticleMixin\<close>.
\<close>

definition ArticleListView_get_queryset :: "settings \<Rightarrow> string \<Rightarrow> article list \<Rightarrow> queryset" where
  "ArticleListView_get_queryset s language all_articles =
     (if JSON_BACKEND s
      then filter_qs (Translations_data_has language)
             (BaseArticleMixin_get_queryset \<lparr>qs_rows = all_articles, qs_filters = []\<rparr>)
      else filter_qs (Translations_language_code_eq language)
             (BaseArticleMixin_get_queryset \<lparr>qs_rows = all_articles, qs_filters = []\<rparr>))"

text \<open>
  The spec's words: an article has a translation in a language when the translation table
  holds a row of the article for the language or, under the JSON backend, when the
  document field of the article holds the language.
\<close>

definition has_translation :: "settings \<Rightarrow> article \<Rightarrow> string \<Rightarrow> bool" where
  "has_translation s a language =
     (if PARLER_BACKEND s = ''json'' then language \<in> set (art_translations_data a)
      else language \<in> set (art_translations a))"

definition spec_article_list :: "settings \<Rightarrow> string \<Rightarrow> article list \<Rightarrow> article set" where
  "spec_article_list s language all_articles =
     {a. a \<in> set all_articles \<and> published a \<and> has_translation s a language}"

section \<open>The test configuration\<close>

text \<open>
  The settings of \<open>startests.py\<close>: site 4 with the languages \<open>nl\<close>, \<open>de\<close> and \<open>en\<close>,
  \<open>LANGUAGE_CODE = 'en'\<close> as the default language, and the JSON backend.
\<close>

definition test_settings :: settings where
  "test_settings =
     \<lparr>SITE_ID = Some 4,
      PARLER_LANGUAGES = [Some 4 \<mapsto> [\<lparr>code = ''nl''\<rparr>, \<lparr>code = ''de''\<rparr>, \<lparr>code = ''en''\<rparr>]],
      PARLER_DEFAULT_LANGUAGE_CODE = ''en'',
      PARLER_BACKEND = ''json''\<rparr>"


text \<open>
  A translations model with the editable fields \<open>title\<close> and \<open>slug\<close>, the model that owns
  it, and a \<open>_get_model_form_field\<close> that labels a new, optional form field with the name
  of the model field.
\<close>

definition article_translation :: translations_model where
  "article_translation = \<lparr>get_translated_fields = [''title'', ''slug''], editable = (\<lambda>name. True)\<rparr>"

definition article_model :: translatable_model where
  "article_model = \<lparr>get_all_models = [article_translation]\<rparr>"

definition plain_form_field ::
  "translations_model \<Rightarrow> string \<Rightarrow> string attr_value option \<Rightarrow> (string \<rightharpoonup> string) \<Rightarrow> form_field option" where
  "plain_form_field tm name cb kwargs =
     Some \<lparr>required = False, label = Some name, language_code = None\<rparr>"

definition no_mro_attribute :: "string \<Rightarrow> string attr_value option" where
  "no_mro_attribute name = None"

text \<open>The \<open>_meta\<close> of a base form class that names no model and lists no fields.\<close>

definition base_form_meta :: "string form_options" where
  "base_form_meta = \<lparr>fo_model = None, fo_fields = FieldsNone, fo_exclude = None, fo_widgets = None\<rparr>"

text \<open>\<open>class Meta: model = Article; fields = ['title', 'slug']\<close>\<close>

definition article_meta :: "string meta_class" where
  "article_meta =
     \<lparr>mc_model = Some (Some article_model), mc_fields = Some (FieldsSeq [''title'', ''slug'']),
      mc_exclude = None, mc_widgets = None\<rparr>"

text \<open>An article with an English translation only.\<close>

definition article_meta_entry :: "string parler_meta" where
  "article_meta_entry =
     \<lparr>translations_name = ''translations'', pm_translated_fields = [''title'', ''slug''],
      field_default = (\<lambda>name. [])\<rparr>"

definition article_instance :: "string model_instance" where
  "article_instance =
     \<lparr>inst_parler_meta = [article_meta_entry], current_language = ''en'',
      inst_translations = [(''translations'', ''en'') \<mapsto> [''title'' \<mapsto> ''Hello'', ''slug'' \<mapsto> ''hello'']]\<rparr>"

text \<open>
  A form that lists the one field \<open>title\<close>, declares a widget for it and has a
  \<open>formfield_callback\<close>:
  \<open>class Meta: model = Article; fields = ['title']; widgets = {'title': Textarea}\<close>.
  The \<open>_get_model_form_field\<close> used with it writes the widget and the callback it was
  given into the label of the new form field.
\<close>

definition title_meta :: "string meta_class" where
  "title_meta =
     \<lparr>mc_model = Some (Some article_model), mc_fields = Some (FieldsSeq [''title'']),
      mc_exclude = None, mc_widgets = Some (Some [''title'' \<mapsto> ''Textarea''])\<rparr>"

definition title_attrs :: "(string \<times> string attr_value) list" where
  "title_attrs = [(''Meta'', MetaClass title_meta), (''formfield_callback'', OtherObject ''make_field'')]"

definition described_form_field ::
  "translations_model \<Rightarrow> string \<Rightarrow> string attr_value option \<Rightarrow> (string \<rightharpoonup> string) \<Rightarrow> form_field option" where
  "described_form_field tm name cb kwargs =
     Some \<lparr>required = False,
           label = Some (name
                     @ (case kwargs ''widget'' of None \<Rightarrow> [] | Some w \<Rightarrow> '' ['' @ w @ '']'')
                     @ (case cb of Some (OtherObject f) \<Rightarrow> '' via '' @ f | _ \<Rightarrow> [])),
           language_code = None\<rparr>"

text \<open>
  A site with the language codes \<open>pt_br\<close> and \<open>br\<close>, and an instance with the translated
  fields \<open>title\<close> and \<open>title_pt\<close> that is translated in \<open>pt_br\<close> only. The form starts
  with no initial value.
\<close>

definition pt_settings :: settings where
  "pt_settings =
     \<lparr>SITE_ID = Some 1,
      PARLER_LANGUAGES = [Some 1 \<mapsto> [\<lparr>code = ''pt_br''\<rparr>, \<lparr>code = ''br''\<rparr>]],
      PARLER_DEFAULT_LANGUAGE_CODE = ''pt_br'',
      PARLER_BACKEND = ''table''\<rparr>"

definition pt_entry :: "string parler_meta" where
  "pt_entry =
     \<lparr>translations_name = ''translations'', pm_translated_fields = [''title'', ''title_pt''],
      field_default = (\<lambda>name. [])\<rparr>"

definition pt_instance :: "string model_instance" where
  "pt_instance =
     \<lparr>inst_parler_meta = [pt_entry], current_language = ''pt_br'',
      inst_translations =
        [(''translations'', ''pt_br'') \<mapsto> [''title'' \<mapsto> ''Ola'', ''title_pt'' \<mapsto> ''Ola pt'']]\<rparr>"

definition no_initial :: "string \<rightharpoonup> string" where
  "no_initial = Map.empty"

section \<open>Saving the translated fields\<close>


lemma getitem_names:
  "c \<in> set (get_available_language_codes s) \<Longrightarrow>
   py_getitem (py_dict (get_translated_fields_names s field)) c = Inr (format_name field c)"
  by (simp add: py_getitem_def py_dict_def get_translated_fields_names_def rev_map
      map_of_map_restrict restrict_map_def)

lemma get_extension_by_field_Some:
  "field \<in> set (concat (map pm_translated_fields ms)) \<Longrightarrow> \<exists>m. get_extension_by_field ms field = Some m"
  by (induction ms) auto

lemma setattr_meta [simp]: "inst_parler_meta (setattr_translated inst field v) = inst_parler_meta inst"
  by (simp add: setattr_translated_def Let_def split: option.splits)

lemma setattr_lang [simp]: "current_language (setattr_translated inst field v) = current_language inst"
  by (simp add: setattr_translated_def Let_def split: option.splits)

lemma setattr_value:
  "get_extension_by_field (inst_parler_meta inst) field = Some m \<Longrightarrow>
   translated_value (setattr_translated inst field v) c f =
     (if c = current_language inst \<and> f = field then Some v else translated_value inst c f)"
  by (auto simp: translated_value_def setattr_translated_def Let_def split: option.splits)

text \<open>The inner loop never raises, and is this fold.\<close>

lemma save_fields_fold:
  "c \<in> set (get_available_language_codes s) \<Longrightarrow>
   save_fields s cd c fs inst =
     Inr (fold (\<lambda>field i. case cd (format_name field c) of None \<Rightarrow> i
                                | Some v \<Rightarrow> setattr_translated i field v) fs inst)"
  by (induction fs arbitrary: inst)
     (simp_all add: getitem_names, simp_all add: py_getitem_def split: option.splits)

lemma fold_setattr_meta:
  "inst_parler_meta (fold (\<lambda>field i. case cd (format_name field c) of None \<Rightarrow> i
                                | Some v \<Rightarrow> setattr_translated i field v) fs inst) = inst_parler_meta inst"
  by (induction fs arbitrary: inst) (auto split: option.splits)

lemma fold_setattr_lang:
  "current_language (fold (\<lambda>field i. case cd (format_name field c) of None \<Rightarrow> i
                                | Some v \<Rightarrow> setattr_translated i field v) fs inst) = current_language inst"
  by (induction fs arbitrary: inst) (auto split: option.splits)

lemma fold_setattr_value:
  "set fs \<subseteq> set (get_all_translated_fields_names inst) \<Longrightarrow>
   current_language inst = c \<Longrightarrow>
   translated_value (fold (\<lambda>field i. case cd (format_name field c) of None \<Rightarrow> i
                                | Some v \<Rightarrow> setattr_translated i field v) fs inst) c' f =
     (if c' = c \<and> f \<in> set fs \<and> cd (format_name f c) \<noteq> None then cd (format_name f c)
      else translated_value inst c' f)"
proof (induction fs arbitrary: inst)
  case Nil
  then show ?case by simp
next
  case (Cons field rest)
  show ?case
  proof (cases "cd (format_name field c)")
    case None
    with Cons.IH [of inst] Cons.prems show ?thesis by auto
  next
    case (Some v)
    let ?i = "setattr_translated inst field v"
    from Cons.prems(1) obtain m where m: "get_extension_by_field (inst_parler_meta inst) field = Some m"
      using get_extension_by_field_Some [of field "inst_parler_meta inst"]
      by (auto simp: get_all_translated_fields_names_def)
    have "set rest \<subseteq> set (get_all_translated_fields_names ?i)"
      using Cons.prems(1) by (simp add: get_all_translated_fields_names_def)
    from Cons.IH [OF this] Cons.prems(2) Some show ?thesis
      by (auto simp: setattr_value [OF m])
  qed
qed

lemma set_current_language_value [simp]:
  "translated_value (set_current_language c inst) c' f = translated_value inst c' f"
  by (simp add: translated_value_def set_current_language_def split: option.splits)

lemma set_current_language_names [simp]:
  "get_all_translated_fields_names (set_current_language c inst) = get_all_translated_fields_names inst"
  by (simp add: get_all_translated_fields_names_def set_current_language_def)

lemma save_languages_result:
  "set cs \<subseteq> set (get_available_language_codes s) \<Longrightarrow>
   \<exists>inst'. save_languages s cd cs inst = Inr inst' \<and>
     inst_parler_meta inst' = inst_parler_meta inst \<and>
     (\<forall>c' f. translated_value inst' c' f =
        (if c' \<in> set cs \<and> f \<in> set (get_all_translated_fields_names inst) \<and> cd (format_name f c') \<noteq> None
         then cd (format_name f c')
         else translated_value inst c' f))"
proof (induction cs arbitrary: inst)
  case Nil
  then show ?case by simp
next
  case (Cons c cs)
  let ?i1 = "set_current_language c inst"
  let ?fs = "get_all_translated_fields_names inst"
  let ?i2 = "fold (\<lambda>field i. case cd (format_name field c) of None \<Rightarrow> i
                                | Some v \<Rightarrow> setattr_translated i field v) ?fs ?i1"
  from Cons.prems have c: "c \<in> set (get_available_language_codes s)" by simp
  have step: "save_fields s cd c (get_all_translated_fields_names ?i1) ?i1 = Inr ?i2"
    using save_fields_fold [OF c] by simp
  have meta2: "inst_parler_meta ?i2 = inst_parler_meta inst"
    by (simp add: fold_setattr_meta set_current_language_def)
  have names2: "get_all_translated_fields_names ?i2 = ?fs"
    using meta2 by (simp add: get_all_translated_fields_names_def)
  have val2: "\<And>c' f. translated_value ?i2 c' f =
     (if c' = c \<and> f \<in> set ?fs \<and> cd (format_name f c) \<noteq> None then cd (format_name f c)
      else translated_value inst c' f)"
  proof -
    fix c' f
    have a: "set ?fs \<subseteq> set (get_all_translated_fields_names ?i1)" by simp
    have b: "current_language ?i1 = c" by (simp add: set_current_language_def)
    show "translated_value ?i2 c' f =
     (if c' = c \<and> f \<in> set ?fs \<and> cd (format_name f c) \<noteq> None then cd (format_name f c)
      else translated_value inst c' f)"
      using fold_setattr_value [OF a b, of cd c' f] by auto
  qed
  from Cons.IH [of ?i2] Cons.prems obtain inst' where i':
    "save_languages s cd cs ?i2 = Inr inst'"
    "inst_parler_meta inst' = inst_parler_meta ?i2"
    "\<forall>c' f. translated_value inst' c' f =
        (if c' \<in> set cs \<and> f \<in> set (get_all_translated_fields_names ?i2) \<and> cd (format_name f c') \<noteq> None
         then cd (format_name f c')
         else translated_value ?i2 c' f)"
    by auto
  have "save_languages s cd (c # cs) inst = Inr inst'"
    using step i'(1) by (simp add: Let_def)
  moreover have "inst_parler_meta inst' = inst_parler_meta inst"
    using i'(2) meta2 by simp
  moreover have "\<forall>c' f. translated_value inst' c' f =
        (if c' \<in> set (c # cs) \<and> f \<in> set ?fs \<and> cd (format_name f c') \<noteq> None
         then cd (format_name f c')
         else translated_value inst c' f)"
    using i'(3) unfolding names2 val2 by auto
  ultimately show ?case by simp
qed



text \<open>
  Claim C10. \<open>save_translated_fields\<close> returns, for any settings, cleaned data and
  instance, and the current language of the instance it leaves is the active language
  of the thread, the value of \<open>get_language()\<close>.
\<close>

theorem save_translated_fields_current_language:
  "\<exists>inst'. save_translated_fields s active cleaned_data inst = Inr inst' \<and>
     current_language inst' = active"
  using save_languages_result [of "get_available_language_codes s" s cleaned_data inst]
  by (auto simp: save_translated_fields_def set_current_language_def)

section \<open>Loading the initial values\<close>


lemma fold_invariant:
  "I m \<Longrightarrow> (\<And>x m. x \<in> set xs \<Longrightarrow> I m \<Longrightarrow> I (f x m)) \<Longrightarrow> I (fold f xs m)"
  by (induction xs arbitrary: m) auto

lemma fold_reaches:
  assumes "x \<in> set xs"
    and "\<And>m. P (f x m)"
    and "\<And>y m. y \<in> set xs \<Longrightarrow> P m \<Longrightarrow> P (f y m)"
  shows "P (fold f xs m)"
  using assms
proof (induction xs arbitrary: m)
  case Nil
  then show ?case by simp
next
  case (Cons a xs)
  show ?case
  proof (cases "x = a")
    case True
    have "P (f a m)" using Cons.prems(2) True by simp
    then have "P (fold f xs (f a m))"
      by (rule fold_invariant [where I = P]) (simp_all add: Cons.prems(3))
    then show ?thesis by simp
  next
    case False
    with Cons.prems(1) have "x \<in> set xs" by simp
    then have "P (fold f xs (f a m))"
      by (rule Cons.IH) (simp_all add: Cons.prems)
    then show ?thesis by simp
  qed
qed

lemma names_set:
  "p \<in> set (get_translated_fields_names s field) \<longleftrightarrow>
   (\<exists>c \<in> set (get_available_language_codes s). p = (c, format_name field c))"
  by (auto simp: get_translated_fields_names_def)

text \<open>A property that every step of the three loops of \<open>__init__\<close> keeps holds at the end.\<close>

lemma load_initial_skip:
  "get_translated_model inst meta (fst p) = Inl TranslationDoesNotExist \<Longrightarrow>
   load_initial inst meta field p initial = initial"
  by (simp add: load_initial_def)

lemma form_init_invariant:
  assumes "I initial"
    and "\<And>meta field c m. meta \<in> set (inst_parler_meta inst) \<Longrightarrow>
           field \<in> set (pm_translated_fields meta) \<Longrightarrow>
           c \<in> set (get_available_language_codes s) \<Longrightarrow> I m \<Longrightarrow>
           I (load_initial inst meta field (c, format_name field c) m)"
  shows "I (form_init s initial (Some inst))"
proof -
  have f: "I (load_field s inst meta field m)"
    if "meta \<in> set (inst_parler_meta inst)" "field \<in> set (pm_translated_fields meta)" "I m"
    for meta field m
    unfolding load_field_def
    by (rule fold_invariant [where I = I]) (use that assms(2) in \<open>auto simp: names_set\<close>)
  have g: "I (load_meta s inst meta m)"
    if "meta \<in> set (inst_parler_meta inst)" "I m" for meta m
    unfolding load_meta_def
    by (rule fold_invariant [where I = I]) (use that f in auto)
  show ?thesis
    unfolding form_init_def option.case
    by (rule fold_invariant [where I = I]) (use assms(1) g in auto)
qed

lemma form_init_reaches:
  assumes meta: "meta \<in> set (inst_parler_meta inst)"
    and field: "field \<in> set (pm_translated_fields meta)"
    and c: "c \<in> set (get_available_language_codes s)"
    and here: "\<And>m. P (load_initial inst meta field (c, format_name field c) m)"
    and keep: "\<And>meta' field' c' m. P m \<Longrightarrow> P (load_initial inst meta' field' (c', format_name field' c') m)"
  shows "P (form_init s initial (Some inst))"
proof -
  have keep_f: "P (load_field s inst meta' field' m)" if "P m" for meta' field' m
    unfolding load_field_def
    by (rule fold_invariant [where I = P]) (use that keep in \<open>auto simp: names_set\<close>)
  have keep_m: "P (load_meta s inst meta' m)" if "P m" for meta' m
    unfolding load_meta_def
    by (rule fold_invariant [where I = P]) (use that keep_f in auto)
  have f: "P (load_field s inst meta field m)" for m
    unfolding load_field_def
    using fold_reaches [where P = P and x = "(c, format_name field c)"
        and xs = "get_translated_fields_names s field" and f = "load_initial inst meta field" and m = m]
      c here keep
    by (auto simp: names_set)
  have g: "P (load_meta s inst meta m)" for m
    unfolding load_meta_def
    using fold_reaches [where P = P and x = field and xs = "pm_translated_fields meta"
        and f = "load_field s inst meta" and m = m] field f keep_f
    by auto
  show ?thesis
    unfolding form_init_def option.case
    using fold_reaches [where P = P and x = meta and xs = "inst_parler_meta inst"
        and f = "load_meta s inst" and m = initial] meta g keep_m
    by auto
qed

lemma form_init_unchanged_name:
  assumes "\<forall>meta \<in> set (inst_parler_meta inst). \<forall>field \<in> set (pm_translated_fields meta).
          \<forall>c \<in> set (get_available_language_codes s).
            format_name field c = k \<longrightarrow>
            get_translated_model inst meta c = Inl TranslationDoesNotExist"
  shows "form_init s initial (Some inst) k = initial k"
  by (rule form_init_invariant [where I = "\<lambda>m. m k = initial k"])
     (use assms in \<open>auto simp: load_initial_def split: sum.splits option.splits translation_error.splits\<close>)

text \<open>
  A generated name gives back the field and the language code when the codes hold no
  underscore, as the language codes of Django do (\<open>en\<close>, \<open>pt-br\<close>).
\<close>

lemma takeWhile_rev_format_name:
  "CHR ''_'' \<notin> set c \<Longrightarrow>
   takeWhile (\<lambda>x. x \<noteq> CHR ''_'') (rev (format_name f c)) = rev c"
  by (auto simp: format_name_def takeWhile_tail)

lemma format_name_inject:
  assumes "CHR ''_'' \<notin> set c1" "CHR ''_'' \<notin> set c2"
    and "format_name f1 c1 = format_name f2 c2"
  shows "f1 = f2 \<and> c1 = c2"
proof -
  have "rev c1 = rev c2"
    using takeWhile_rev_format_name [OF assms(1), of f1]
      takeWhile_rev_format_name [OF assms(2), of f2] assms(3) by simp
  then have "c1 = c2" by simp
  with assms(3) show ?thesis by (simp add: format_name_def)
qed

lemma get_translated_model_name:
  "translations_name meta' = translations_name meta \<Longrightarrow>
   get_translated_model inst meta' c = get_translated_model inst meta c"
  by (simp add: get_translated_model_def)

text \<open>
  A translated field and a language that have a translation: the per-language form
  field ends with an initial value, the one \<open>initial\<close> held before (\<open>setdefault\<close>) or
  else the value of a translated field and a language with this generated name, read from
  their translation.
\<close>

lemma form_init_loaded_getattr:
  assumes meta: "meta \<in> set (inst_parler_meta inst)"
    and field: "field \<in> set (pm_translated_fields meta)"
    and c: "c \<in> set (get_available_language_codes s)"
    and tr: "get_translated_model inst meta c = Inr translation"
  shows "case initial (format_name field c) of
           Some old \<Rightarrow> form_init s initial (Some inst) (format_name field c) = Some old
         | None \<Rightarrow>
            (\<exists>meta' \<in> set (inst_parler_meta inst). \<exists>field' \<in> set (pm_translated_fields meta').
             \<exists>c' \<in> set (get_available_language_codes s). \<exists>translation'.
               format_name field' c' = format_name field c \<and>
               get_translated_model inst meta' c' = Inr translation' \<and>
               form_init s initial (Some inst) (format_name field c) =
                 Some (getattr_translation meta' translation' field'))"
proof -
  let ?k = "format_name field c"
  let ?from = "\<lambda>v. \<exists>meta' \<in> set (inst_parler_meta inst). \<exists>field' \<in> set (pm_translated_fields meta').
             \<exists>c' \<in> set (get_available_language_codes s). \<exists>translation'.
               format_name field' c' = ?k \<and>
               get_translated_model inst meta' c' = Inr translation' \<and>
               v = (getattr_translation meta' translation' field')"
  show ?thesis
  proof (cases "initial ?k")
    case (Some old)
    have "form_init s initial (Some inst) ?k = Some old"
      by (rule form_init_invariant [where I = "\<lambda>m. m ?k = Some old"])
         (use Some in \<open>auto simp: load_initial_def split: sum.splits option.splits translation_error.splits\<close>)
    with Some show ?thesis by simp
  next
    case None
    have dom: "form_init s initial (Some inst) ?k \<noteq> None"
      by (rule form_init_reaches [where P = "\<lambda>m. m ?k \<noteq> None", OF meta field c])
         (use tr in \<open>auto simp: load_initial_def split: sum.splits option.splits translation_error.splits\<close>)
    have prov: "\<forall>v. form_init s initial (Some inst) ?k = Some v \<longrightarrow> ?from v"
      by (rule form_init_invariant [where I = "\<lambda>m. \<forall>v. m ?k = Some v \<longrightarrow> ?from v"])
         (use None in \<open>auto simp: load_initial_def split: sum.splits option.splits translation_error.splits\<close>)
    from dom obtain v where v: "form_init s initial (Some inst) ?k = Some v" by auto
    with prov have "?from v" by blast
    with v None show ?thesis by auto
  qed
qed

lemma form_init_loaded:
  assumes meta: "meta \<in> set (inst_parler_meta inst)"
    and field: "field \<in> set (pm_translated_fields meta)"
    and c: "c \<in> set (get_available_language_codes s)"
    and tr: "get_translated_model inst meta c = Inr translation"
  shows "case initial (format_name field c) of
           Some old \<Rightarrow> form_init s initial (Some inst) (format_name field c) = Some old
         | None \<Rightarrow>
            (\<exists>meta' \<in> set (inst_parler_meta inst). \<exists>field' \<in> set (pm_translated_fields meta').
             \<exists>c' \<in> set (get_available_language_codes s). \<exists>translation'.
               format_name field' c' = format_name field c \<and>
               get_translated_model inst meta' c' = Inr translation' \<and>
               form_init s initial (Some inst) (format_name field c) =
                 Some (case translation' field' of Some v \<Rightarrow> v | None \<Rightarrow> field_default meta' field'))"
  using form_init_loaded_getattr [OF assms, of initial, unfolded getattr_translation_def] .

text \<open>
  Claim C5, as amended. When the form is initialised with an instance: (1) a language
  code for which \<open>_get_translated_model\<close> raises \<open>TranslationDoesNotExist\<close> is caught and
  skipped, the step leaves \<open>initial\<close> as it is; (2) a per-language form field all of whose
  translated fields and languages have no translation keeps the initial value it had, so
  none is set for it; (3) this is so for every translated field and language where the
  instance has no translation, the language codes holding no underscore and the field
  belonging to one translation source, so that the generated name stands for this field
  and language only; (4) for a translated field and a language that do have a
  translation the per-language form field has an initial value at the end, the one
  \<open>initial\<close> already held (\<open>setdefault\<close>), or else the value of a translated field and
  language with this generated name, read from their translation; (5) which is the value
  of this field in the translation of this language, the language codes holding no
  underscore and the field belonging to one registry entry, when \<open>initial\<close> held no value
  under the name.
\<close>

theorem form_init_skips_missing_translation:
  fixes inst :: "'v model_instance"
  shows
  "(\<forall>meta field p. get_translated_model inst meta (fst p) = Inl TranslationDoesNotExist \<longrightarrow>
      load_initial inst meta field p initial = initial) \<and>
   (\<forall>k. (\<forall>meta \<in> set (inst_parler_meta inst). \<forall>field \<in> set (pm_translated_fields meta).
          \<forall>c \<in> set (get_available_language_codes s).
            format_name field c = k \<longrightarrow>
            get_translated_model inst meta c = Inl TranslationDoesNotExist) \<longrightarrow>
        form_init s initial (Some inst) k = initial k) \<and>
   (\<forall>meta \<in> set (inst_parler_meta inst). \<forall>field \<in> set (pm_translated_fields meta).
      \<forall>c \<in> set (get_available_language_codes s).
        get_translated_model inst meta c = Inl TranslationDoesNotExist \<longrightarrow>
        (\<forall>c' \<in> set (get_available_language_codes s). CHR ''_'' \<notin> set c') \<longrightarrow>
        (\<forall>meta' \<in> set (inst_parler_meta inst).
           field \<in> set (pm_translated_fields meta') \<longrightarrow>
           translations_name meta' = translations_name meta) \<longrightarrow>
        form_init s initial (Some inst) (format_name field c) = initial (format_name field c)) \<and>
   (\<forall>meta \<in> set (inst_parler_meta inst). \<forall>field \<in> set (pm_translated_fields meta).
      \<forall>c \<in> set (get_available_language_codes s). \<forall>translation.
        get_translated_model inst meta c = Inr translation \<longrightarrow>
        (case initial (format_name field c) of
           Some old \<Rightarrow> form_init s initial (Some inst) (format_name field c) = Some old
         | None \<Rightarrow>
            (\<exists>meta' \<in> set (inst_parler_meta inst). \<exists>field' \<in> set (pm_translated_fields meta').
             \<exists>c' \<in> set (get_available_language_codes s). \<exists>translation'.
               format_name field' c' = format_name field c \<and>
               get_translated_model inst meta' c' = Inr translation' \<and>
               form_init s initial (Some inst) (format_name field c) =
                 Some (case translation' field' of Some v \<Rightarrow> v | None \<Rightarrow> field_default meta' field')))) \<and>
   (\<forall>meta \<in> set (inst_parler_meta inst). \<forall>field \<in> set (pm_translated_fields meta).
      \<forall>c \<in> set (get_available_language_codes s). \<forall>translation.
        get_translated_model inst meta c = Inr translation \<longrightarrow>
        initial (format_name field c) = None \<longrightarrow>
        (\<forall>c' \<in> set (get_available_language_codes s). CHR ''_'' \<notin> set c') \<longrightarrow>
        (\<forall>meta' \<in> set (inst_parler_meta inst).
           field \<in> set (pm_translated_fields meta') \<longrightarrow> meta' = meta) \<longrightarrow>
        form_init s initial (Some inst) (format_name field c) =
          Some (case translation field of Some v \<Rightarrow> v | None \<Rightarrow> field_default meta field))"
proof (intro conjI allI ballI impI)
  fix meta field and p :: "string \<times> string"
  assume "get_translated_model inst meta (fst p) = Inl TranslationDoesNotExist"
  then show "load_initial inst meta field p initial = initial" by (rule load_initial_skip)
next
  fix k
  assume none: "\<forall>meta \<in> set (inst_parler_meta inst). \<forall>field \<in> set (pm_translated_fields meta).
          \<forall>c \<in> set (get_available_language_codes s).
            format_name field c = k \<longrightarrow>
            get_translated_model inst meta c = Inl TranslationDoesNotExist"
  then show "form_init s initial (Some inst) k = initial k"
    by (rule form_init_unchanged_name)
next
  fix meta field c
  assume c: "c \<in> set (get_available_language_codes s)"
    and missing: "get_translated_model inst meta c = Inl TranslationDoesNotExist"
    and codes: "\<forall>c' \<in> set (get_available_language_codes s). CHR ''_'' \<notin> set c'"
    and one: "\<forall>meta' \<in> set (inst_parler_meta inst).
           field \<in> set (pm_translated_fields meta') \<longrightarrow>
           translations_name meta' = translations_name meta"
  have "get_translated_model inst meta' c' = Inl TranslationDoesNotExist"
    if "meta' \<in> set (inst_parler_meta inst)" "field' \<in> set (pm_translated_fields meta')"
      "c' \<in> set (get_available_language_codes s)" "format_name field' c' = format_name field c"
    for meta' field' c'
  proof -
    from codes that(3) c have "CHR ''_'' \<notin> set c'" "CHR ''_'' \<notin> set c" by auto
    from format_name_inject [OF this that(4)] have same: "field' = field" "c' = c" by simp_all
    with one that(1,2) have "translations_name meta' = translations_name meta" by blast
    from get_translated_model_name [OF this] missing same show ?thesis by simp
  qed
  then show "form_init s initial (Some inst) (format_name field c) = initial (format_name field c)"
    by (intro form_init_unchanged_name) blast
next
  fix meta field c translation
  assume "meta \<in> set (inst_parler_meta inst)"
    and "field \<in> set (pm_translated_fields meta)"
    and "c \<in> set (get_available_language_codes s)"
    and "get_translated_model inst meta c = Inr translation"
  then show "case initial (format_name field c) of
           Some old \<Rightarrow> form_init s initial (Some inst) (format_name field c) = Some old
         | None \<Rightarrow>
            (\<exists>meta' \<in> set (inst_parler_meta inst). \<exists>field' \<in> set (pm_translated_fields meta').
             \<exists>c' \<in> set (get_available_language_codes s). \<exists>translation'.
               format_name field' c' = format_name field c \<and>
               get_translated_model inst meta' c' = Inr translation' \<and>
               form_init s initial (Some inst) (format_name field c) =
                 Some (case translation' field' of Some v \<Rightarrow> v | None \<Rightarrow> field_default meta' field'))"
    by (rule form_init_loaded)
next
  fix meta field c translation
  assume meta: "meta \<in> set (inst_parler_meta inst)"
    and field: "field \<in> set (pm_translated_fields meta)"
    and c: "c \<in> set (get_available_language_codes s)"
    and tr: "get_translated_model inst meta c = Inr translation"
    and unset: "initial (format_name field c) = None"
    and codes: "\<forall>c' \<in> set (get_available_language_codes s). CHR ''_'' \<notin> set c'"
    and one: "\<forall>meta' \<in> set (inst_parler_meta inst).
           field \<in> set (pm_translated_fields meta') \<longrightarrow> meta' = meta"
  from form_init_loaded [OF meta field c tr, of initial] unset
  obtain meta' field' c' translation' where
    m': "meta' \<in> set (inst_parler_meta inst)" and f': "field' \<in> set (pm_translated_fields meta')"
    and c': "c' \<in> set (get_available_language_codes s)"
    and name: "format_name field' c' = format_name field c"
    and tr': "get_translated_model inst meta' c' = Inr translation'"
    and res: "form_init s initial (Some inst) (format_name field c) =
                 Some (case translation' field' of Some v \<Rightarrow> v | None \<Rightarrow> field_default meta' field')"
    by auto
  from codes c c' have "CHR ''_'' \<notin> set c'" "CHR ''_'' \<notin> set c" by auto
  from format_name_inject [OF this name] have same: "field' = field" "c' = c" by simp_all
  with one m' f' have "meta' = meta" by blast
  with tr tr' same have "translation' = translation" by simp
  with res same \<open>meta' = meta\<close>
  show "form_init s initial (Some inst) (format_name field c) =
          Some (case translation field of Some v \<Rightarrow> v | None \<Rightarrow> field_default meta field)"
    by (simp cong: option.case_cong)
qed

theorem form_init_skips_missing_translation_witness:
  "get_translated_model article_instance article_meta_entry ''nl'' = Inl TranslationDoesNotExist \<and>
   get_translated_model article_instance article_meta_entry ''de'' = Inl TranslationDoesNotExist \<and>
   get_available_language_codes test_settings = [''nl'', ''de'', ''en''] \<and>
   load_initial article_instance article_meta_entry ''title'' (''nl'', ''title_nl'') Map.empty = Map.empty \<and>
   form_init test_settings Map.empty (Some article_instance) ''title_nl'' = None \<and>
   form_init test_settings Map.empty (Some article_instance) ''slug_de'' = None \<and>
   get_translated_model article_instance article_meta_entry ''en''
     = Inr [''title'' \<mapsto> ''Hello'', ''slug'' \<mapsto> ''hello''] \<and>
   form_init test_settings Map.empty (Some article_instance) ''title_en'' = Some ''Hello''"
proof -
  let ?init = "Map.empty :: string \<rightharpoonup> string"
  note main = form_init_skips_missing_translation [of article_instance ?init test_settings]
  have nl: "get_translated_model article_instance article_meta_entry ''nl'' = Inl TranslationDoesNotExist"
    and de: "get_translated_model article_instance article_meta_entry ''de'' = Inl TranslationDoesNotExist"
    by (simp_all add: get_translated_model_def article_instance_def article_meta_entry_def)
  have en: "get_translated_model article_instance article_meta_entry ''en''
      = Inr [''title'' \<mapsto> ''Hello'', ''slug'' \<mapsto> ''hello'']"
    by (simp add: get_translated_model_def article_instance_def article_meta_entry_def)
  have codes: "get_available_language_codes test_settings = [''nl'', ''de'', ''en'']"
    by (simp add: get_available_language_codes_def test_settings_def)
  have metas: "inst_parler_meta article_instance = [article_meta_entry]"
    by (simp add: article_instance_def)
  have flds: "pm_translated_fields article_meta_entry = [''title'', ''slug'']"
    by (simp add: article_meta_entry_def)
  have plain: "\<forall>c' \<in> set (get_available_language_codes test_settings). CHR ''_'' \<notin> set c'"
    by (simp add: codes)
  have one: "\<forall>meta' \<in> set (inst_parler_meta article_instance).
           ''title'' \<in> set (pm_translated_fields meta') \<longrightarrow>
           translations_name meta' = translations_name article_meta_entry"
    by (simp add: metas)
  have one': "\<forall>meta' \<in> set (inst_parler_meta article_instance).
           ''title'' \<in> set (pm_translated_fields meta') \<longrightarrow> meta' = article_meta_entry"
    by (simp add: metas)
  have mem: "article_meta_entry \<in> set (inst_parler_meta article_instance)"
    "''title'' \<in> set (pm_translated_fields article_meta_entry)"
    "''nl'' \<in> set (get_available_language_codes test_settings)"
    "''en'' \<in> set (get_available_language_codes test_settings)"
    by (simp_all add: metas flds codes)
  have skip: "load_initial article_instance article_meta_entry ''title'' (''nl'', ''title_nl'') ?init = ?init"
    using main nl by simp
  have "\<forall>meta \<in> set (inst_parler_meta article_instance). \<forall>field \<in> set (pm_translated_fields meta).
          \<forall>c \<in> set (get_available_language_codes test_settings).
            format_name field c = ''slug_de'' \<longrightarrow>
            get_translated_model article_instance meta c = Inl TranslationDoesNotExist"
    using de by (simp add: metas flds codes format_name_def)
  with main have unset_de: "form_init test_settings ?init (Some article_instance) ''slug_de'' = ?init ''slug_de''"
    by blast
  from main mem nl plain one
  have "form_init test_settings ?init (Some article_instance) (format_name ''title'' ''nl'')
      = ?init (format_name ''title'' ''nl'')"
    by blast
  then have unset_nl: "form_init test_settings ?init (Some article_instance) ''title_nl'' = None"
    by (simp add: format_name_def)
  have "?init (format_name ''title'' ''en'') = None" by simp
  with main mem en plain one'
  have "form_init test_settings ?init (Some article_instance) (format_name ''title'' ''en'')
      = Some (case [''title'' \<mapsto> ''Hello'', ''slug'' \<mapsto> ''hello''] ''title'' of
                Some v \<Rightarrow> v | None \<Rightarrow> field_default article_meta_entry ''title'')"
    by blast
  then have set_en: "form_init test_settings ?init (Some article_instance) ''title_en'' = Some ''Hello''"
    by (simp add: format_name_def)
  from nl de codes skip unset_nl unset_de en set_en show ?thesis by simp
qed

text \<open>
  Claim C5, as the spec states it, fails where two pairs of a translated field and a
  language generate one name. With the fields \<open>title\<close> and \<open>title_pt\<close> and the languages
  \<open>pt_br\<close> and \<open>br\<close>, the instance has no translation in \<open>br\<close>, and yet the form field
  \<open>title_pt_br\<close> of the field \<open>title_pt\<close> and the language \<open>br\<close> gets an initial value: the
  \<open>title\<close> of the translation in \<open>pt_br\<close>.
\<close>

theorem form_init_sets_shared_name:
  "pt_entry \<in> set (inst_parler_meta pt_instance) \<and>
   ''title_pt'' \<in> set (pm_translated_fields pt_entry) \<and>
   ''br'' \<in> set (get_available_language_codes pt_settings) \<and>
   get_translated_model pt_instance pt_entry ''br'' = Inl TranslationDoesNotExist \<and>
   no_initial (format_name ''title_pt'' ''br'') = None \<and>
   form_init pt_settings no_initial (Some pt_instance) (format_name ''title_pt'' ''br'') = Some ''Ola''"
  by (simp add: pt_instance_def pt_entry_def pt_settings_def no_initial_def
      get_available_language_codes_def get_translated_model_def format_name_def
      form_init_def load_meta_def load_field_def load_initial_def
      get_translated_fields_names_def getattr_translation_def)

section \<open>The fields the metaclass generates\<close>


lemma store_fields_entries:
  assumes "store_fields gmff s tm f_name cb kwargs names a = Inr a'"
    and "map_of a' k = Some v"
  shows "map_of a k = Some v \<or>
    (\<exists>c base l. (c, k) \<in> set names \<and> gmff tm f_name cb kwargs = Some base \<and> label base = Some l \<and>
       v = FormField (base\<lparr>required := (c = get_default_language s),
                            label := Some (l @ '' ('' @ c @ '')''),
                            language_code := Some c\<rparr>))"
  using assms
proof (induction names arbitrary: a)
  case Nil
  then show ?case by simp
next
  case (Cons p rest)
  obtain c t_name where p: "p = (c, t_name)" by (cases p)
  from Cons.prems(1) p obtain base l where
    base: "gmff tm f_name cb kwargs = Some base" "label base = Some l"
    and rest: "store_fields gmff s tm f_name cb kwargs rest
                 (AList.update t_name
                    (FormField (base\<lparr>required := (c = get_default_language s),
                                      label := Some (l @ '' ('' @ c @ '')''),
                                      language_code := Some c\<rparr>)) a) = Inr a'"
    by (auto split: option.splits)
  from Cons.IH [OF rest Cons.prems(2)] show ?case
  proof
    assume "map_of (AList.update t_name
                    (FormField (base\<lparr>required := (c = get_default_language s),
                                      label := Some (l @ '' ('' @ c @ '')''),
                                      language_code := Some c\<rparr>)) a) k = Some v"
    then show ?thesis
      using base p by (auto simp: update_conv' split: if_splits)
  next
    assume "\<exists>c base l. (c, k) \<in> set rest \<and> gmff tm f_name cb kwargs = Some base \<and> label base = Some l \<and>
       v = FormField (base\<lparr>required := (c = get_default_language s),
                            label := Some (l @ '' ('' @ c @ '')''),
                            language_code := Some c\<rparr>)"
    then show ?thesis by auto
  qed
qed

lemma attrs_setattr_fields [simp]: "attrs (setattr_fields v st) = attrs st"
  by (simp add: setattr_fields_def split: new_meta.splits)

lemma handle_field_cases:
  assumes "handle_field gmff mro s tm bf tfs flds exclude widgets cb f_name st = Inr st'"
  shows "attrs st' = attrs st \<or>
    store_fields gmff s tm f_name cb (field_kwargs widgets mro f_name)
      (get_translated_fields_names s f_name) (attrs st) = Inr (attrs st')"
  using assms
  by (auto simp: handle_field_def Let_def split: if_splits sum.splits option.splits)

lemma handle_field_entries:
  assumes "handle_field gmff mro s tm bf tfs flds exclude widgets cb f_name st = Inr st'"
    and "map_of (attrs st') k = Some v"
  shows "map_of (attrs st) k = Some v \<or>
    (\<exists>c base l. c \<in> set (get_available_language_codes s) \<and> k = format_name f_name c \<and>
       gmff tm f_name cb (field_kwargs widgets mro f_name) = Some base \<and> label base = Some l \<and>
       v = FormField (base\<lparr>required := (c = PARLER_DEFAULT_LANGUAGE_CODE s),
                            label := Some (l @ '' ('' @ c @ '')''),
                            language_code := Some c\<rparr>))"
proof -
  from handle_field_cases [OF assms(1)] show ?thesis
  proof
    assume "attrs st' = attrs st"
    with assms(2) show ?thesis by simp
  next
    assume "store_fields gmff s tm f_name cb (field_kwargs widgets mro f_name)
      (get_translated_fields_names s f_name) (attrs st) = Inr (attrs st')"
    from store_fields_entries [OF this assms(2)] show ?thesis
    proof
      assume "map_of (attrs st) k = Some v"
      then show ?thesis ..
    next
      assume "\<exists>c base l. (c, k) \<in> set (get_translated_fields_names s f_name) \<and>
         gmff tm f_name cb (field_kwargs widgets mro f_name) = Some base \<and> label base = Some l \<and>
         v = FormField (base\<lparr>required := (c = get_default_language s),
                            label := Some (l @ '' ('' @ c @ '')''),
                            language_code := Some c\<rparr>)"
      then obtain c base l where
        c: "(c, k) \<in> set (get_translated_fields_names s f_name)"
        and b: "gmff tm f_name cb (field_kwargs widgets mro f_name) = Some base" "label base = Some l"
        and v: "v = FormField (base\<lparr>required := (c = get_default_language s),
                            label := Some (l @ '' ('' @ c @ '')''),
                            language_code := Some c\<rparr>)"
        by blast
      from c have "c \<in> set (get_available_language_codes s)" "k = format_name f_name c"
        by (auto simp: get_translated_fields_names_def)
      with b v show ?thesis
        unfolding get_default_language_def by blast
    qed
  qed
qed

lemma handle_fields_entries:
  assumes "handle_fields gmff mro s tm bf tfs flds exclude widgets cb fs st = Inr st'"
    and "map_of (attrs st') k = Some v"
  shows "map_of (attrs st) k = Some v \<or>
    (\<exists>f_name c base l. f_name \<in> set fs \<and>
       c \<in> set (get_available_language_codes s) \<and> k = format_name f_name c \<and>
       gmff tm f_name cb (field_kwargs widgets mro f_name) = Some base \<and> label base = Some l \<and>
       v = FormField (base\<lparr>required := (c = PARLER_DEFAULT_LANGUAGE_CODE s),
                            label := Some (l @ '' ('' @ c @ '')''),
                            language_code := Some c\<rparr>))"
  using assms
proof (induction fs arbitrary: st)
  case Nil
  then show ?case by simp
next
  case (Cons f rest)
  from Cons.prems(1) obtain st1 where
    one: "handle_field gmff mro s tm bf tfs flds exclude widgets cb f st = Inr st1"
    and more: "handle_fields gmff mro s tm bf tfs flds exclude widgets cb rest st1 = Inr st'"
    by (auto split: sum.splits)
  from Cons.IH [OF more Cons.prems(2)] show ?case
  proof
    assume "map_of (attrs st1) k = Some v"
    from handle_field_entries [OF one this] list.set_intros(1) [of f rest]
    show ?thesis by blast
  next
    assume "\<exists>f_name c base l. f_name \<in> set rest \<and>
       c \<in> set (get_available_language_codes s) \<and> k = format_name f_name c \<and>
       gmff tm f_name cb (field_kwargs widgets mro f_name) = Some base \<and> label base = Some l \<and>
       v = FormField (base\<lparr>required := (c = PARLER_DEFAULT_LANGUAGE_CODE s),
                            label := Some (l @ '' ('' @ c @ '')''),
                            language_code := Some c\<rparr>)"
    with list.set_intros(2) [of _ rest f] show ?thesis by blast
  qed
qed

text \<open>
  One call of \<open>_handle_translation_model\<close>: an entry of \<open>attrs\<close> that the call has stored
  is made from the form field that \<open>_get_model_form_field\<close> returns for the
  \<open>formfield_callback\<close> and the widgets the call has read.
\<close>

lemma handle_translation_model_entries:
  assumes "handle_translation_model gmff mro s tm bf tfs st = Inr st'"
    and "map_of (attrs st') k = Some v"
  shows "map_of (attrs st) k = Some v \<or>
    (\<exists>f_name c base l. f_name \<in> set (get_translated_fields tm) \<and>
       c \<in> set (get_available_language_codes s) \<and> k = format_name f_name c \<and>
       gmff tm f_name (map_of (attrs st) ''formfield_callback'')
         (field_kwargs (declared_widgets st) mro f_name) = Some base \<and>
       label base = Some l \<and>
       v = FormField (base\<lparr>required := (c = PARLER_DEFAULT_LANGUAGE_CODE s),
                            label := Some (l @ '' ('' @ c @ '')''),
                            language_code := Some c\<rparr>))"
  using handle_fields_entries [OF assms(1) [unfolded handle_translation_model_def Let_def] assms(2)]
  by blast

text \<open>
  The loop over the translations models: an entry that the loop has stored was stored by
  the call for one of the models, in the state the models before it have left.
\<close>

lemma handle_models_entries:
  assumes "handle_models gmff mro s bf tfs tms st = Inr st'"
    and "map_of (attrs st') k = Some v"
  shows "map_of (attrs st) k = Some v \<or>
    (\<exists>before tm after st1 f_name c base l.
       tms = before @ tm # after \<and>
       handle_models gmff mro s bf tfs before st = Inr st1 \<and>
       f_name \<in> set (get_translated_fields tm) \<and>
       c \<in> set (get_available_language_codes s) \<and> k = format_name f_name c \<and>
       gmff tm f_name (map_of (attrs st1) ''formfield_callback'')
         (field_kwargs (declared_widgets st1) mro f_name) = Some base \<and>
       label base = Some l \<and>
       v = FormField (base\<lparr>required := (c = PARLER_DEFAULT_LANGUAGE_CODE s),
                            label := Some (l @ '' ('' @ c @ '')''),
                            language_code := Some c\<rparr>))"
  using assms
proof (induction tms arbitrary: st)
  case Nil
  then show ?case by simp
next
  case (Cons t rest)
  from Cons.prems(1) obtain sta where
    one: "handle_translation_model gmff mro s t bf tfs st = Inr sta"
    and more: "handle_models gmff mro s bf tfs rest sta = Inr st'"
    by (auto split: sum.splits)
  from Cons.IH [OF more Cons.prems(2)] show ?case
  proof
    assume "map_of (attrs sta) k = Some v"
    from handle_translation_model_entries [OF one this] show ?thesis
    proof
      assume "map_of (attrs st) k = Some v"
      then show ?thesis ..
    next
      assume "\<exists>f_name c base l. f_name \<in> set (get_translated_fields t) \<and>
       c \<in> set (get_available_language_codes s) \<and> k = format_name f_name c \<and>
       gmff t f_name (map_of (attrs st) ''formfield_callback'')
         (field_kwargs (declared_widgets st) mro f_name) = Some base \<and>
       label base = Some l \<and>
       v = FormField (base\<lparr>required := (c = PARLER_DEFAULT_LANGUAGE_CODE s),
                            label := Some (l @ '' ('' @ c @ '')''),
                            language_code := Some c\<rparr>)"
      moreover have "t # rest = [] @ t # rest" by simp
      moreover have "handle_models gmff mro s bf tfs [] st = Inr st" by simp
      ultimately show ?thesis by blast
    qed
  next
    assume "\<exists>before tm after st1 f_name c base l.
       rest = before @ tm # after \<and>
       handle_models gmff mro s bf tfs before sta = Inr st1 \<and>
       f_name \<in> set (get_translated_fields tm) \<and>
       c \<in> set (get_available_language_codes s) \<and> k = format_name f_name c \<and>
       gmff tm f_name (map_of (attrs st1) ''formfield_callback'')
         (field_kwargs (declared_widgets st1) mro f_name) = Some base \<and>
       label base = Some l \<and>
       v = FormField (base\<lparr>required := (c = PARLER_DEFAULT_LANGUAGE_CODE s),
                            label := Some (l @ '' ('' @ c @ '')''),
                            language_code := Some c\<rparr>)"
    then obtain before tm after st1 f_name c base l where
      split: "rest = before @ tm # after"
      and reach: "handle_models gmff mro s bf tfs before sta = Inr st1"
      and gen: "f_name \<in> set (get_translated_fields tm)"
        "c \<in> set (get_available_language_codes s)" "k = format_name f_name c"
        "gmff tm f_name (map_of (attrs st1) ''formfield_callback'')
           (field_kwargs (declared_widgets st1) mro f_name) = Some base"
        "label base = Some l"
        "v = FormField (base\<lparr>required := (c = PARLER_DEFAULT_LANGUAGE_CODE s),
                            label := Some (l @ '' ('' @ c @ '')''),
                            language_code := Some c\<rparr>)"
      by blast
    from split have "t # rest = (t # before) @ tm # after" by simp
    moreover from one reach have "handle_models gmff mro s bf tfs (t # before) st = Inr st1" by simp
    ultimately show ?thesis using gen by blast
  qed
qed

text \<open>
  The form \<open>class Meta: model = Article; fields = ['title']; widgets = {'title': Textarea}\<close>
  with a \<open>formfield_callback\<close>, under the test settings: \<open>Meta.fields\<close> ends as the three
  per-language names of \<open>title\<close>, and the field stored for \<open>en\<close> is required and labelled
  with the widget, the callback and the code.
\<close>

lemma title_form_created:
  "\<exists>st. metaclass_new described_form_field no_mro_attribute test_settings (Some base_form_meta) []
          title_attrs = Inr (Handled st) \<and>
     getattr_fields st = FieldsSeq [''title_nl'', ''title_de'', ''title_en''] \<and>
     map fst (attrs st) = [''Meta'', ''formfield_callback'', ''title_nl'', ''title_de'', ''title_en''] \<and>
     map_of (attrs st) ''title_en'' =
       Some (FormField \<lparr>required = True, label = Some ''title [Textarea] via make_field (en)'',
                         language_code = Some ''en''\<rparr>) \<and>
     map_of (attrs st) ''title_nl'' =
       Some (FormField \<lparr>required = False, label = Some ''title [Textarea] via make_field (nl)'',
                         language_code = Some ''nl''\<rparr>)"
  by (simp add: metaclass_new_def get_form_new_meta_def detect_placeholders_def
      handle_translation_model_def handle_field_def field_kwargs_def declared_widgets_def
      getattr_fields_def getattr_exclude_def getattr_widgets_def setattr_fields_def
      get_translated_fields_names_def get_available_language_codes_def format_name_def
      zip_star_1_def replace_field_def get_default_language_def Let_def
      title_attrs_def title_meta_def article_model_def article_translation_def
      base_form_meta_def test_settings_def described_form_field_def no_mro_attribute_def)

text \<open>
  Claim C9. Every entry of the class dictionary that the metaclass has stored or changed
  is a generated per-language form field. It stands under the name \<open>{field}_{code}\<close> of a
  translated field of one of the translations models of the form's model and of a
  configured language code. It is the form field that \<open>_get_model_form_field\<close> returned
  for that translations model and field, for the \<open>formfield_callback\<close> of \<open>attrs\<close> and
  for the keyword arguments made of the declared widget and the placeholder's \<open>kwargs\<close>,
  as \<open>_handle_translation_model\<close> reads them when it is called for the translations
  model; with \<open>required\<close> set to whether the code is \<open>PARLER_DEFAULT_LANGUAGE_CODE\<close>, with
  \<open>' ({code})'\<close> appended to its label, and with \<open>language_code\<close> set to the code.
\<close>

theorem per_language_field_attributes:
  assumes "metaclass_new gmff mro s form_meta_opt form_base_fields attrs0 = Inr (Handled st)"
    and "map_of (attrs st) k = Some v"
    and "map_of attrs0 k \<noteq> Some v"
  shows "\<exists>fm new_meta model before tm after st1 f_name c base l.
       form_meta_opt = Some fm \<and>
       get_form_new_meta fm attrs0 = Inr (new_meta, Some model) \<and>
       get_all_models model = before @ tm # after \<and>
       handle_models gmff mro s form_base_fields (detect_placeholders attrs0) before
         \<lparr>attrs = attrs0, form_new_meta = new_meta, form_meta = fm\<rparr> = Inr st1 \<and>
       f_name \<in> set (get_translated_fields tm) \<and>
       c \<in> set (get_available_language_codes s) \<and> k = format_name f_name c \<and>
       gmff tm f_name (map_of (attrs st1) ''formfield_callback'')
         (field_kwargs (declared_widgets st1) mro f_name) = Some base \<and>
       label base = Some l \<and>
       v = FormField (base\<lparr>required := (c = PARLER_DEFAULT_LANGUAGE_CODE s),
                            label := Some (l @ '' ('' @ c @ '')''),
                            language_code := Some c\<rparr>)"
proof -
  from assms(1) obtain fm new_meta model where
    fm: "form_meta_opt = Some fm"
    and meta: "get_form_new_meta fm attrs0 = Inr (new_meta, Some model)"
    and run: "handle_models gmff mro s form_base_fields (detect_placeholders attrs0)
       (get_all_models model)
       \<lparr>attrs = attrs0, form_new_meta = new_meta, form_meta = fm\<rparr> = Inr st"
    by (auto simp: metaclass_new_def Let_def split: option.splits sum.splits prod.splits)
  from handle_models_entries [OF run assms(2)] assms(3) fm meta show ?thesis
    unfolding form_state.simps by blast
qed

theorem per_language_field_attributes_witness:
  "\<exists>st. metaclass_new described_form_field no_mro_attribute test_settings (Some base_form_meta) []
          title_attrs = Inr (Handled st) \<and>
     map_of (attrs st) ''title_en'' =
       Some (FormField \<lparr>required = True, label = Some ''title [Textarea] via make_field (en)'',
                         language_code = Some ''en''\<rparr>) \<and>
     map_of title_attrs ''title_en'' = None \<and>
     (\<exists>fm new_meta model before tm after st1 f_name c base l.
       Some base_form_meta = Some fm \<and>
       get_form_new_meta fm title_attrs = Inr (new_meta, Some model) \<and>
       get_all_models model = before @ tm # after \<and>
       handle_models described_form_field no_mro_attribute test_settings []
         (detect_placeholders title_attrs) before
         \<lparr>attrs = title_attrs, form_new_meta = new_meta, form_meta = fm\<rparr> = Inr st1 \<and>
       f_name \<in> set (get_translated_fields tm) \<and>
       c \<in> set (get_available_language_codes test_settings) \<and> ''title_en'' = format_name f_name c \<and>
       described_form_field tm f_name (map_of (attrs st1) ''formfield_callback'')
         (field_kwargs (declared_widgets st1) no_mro_attribute f_name) = Some base \<and>
       label base = Some l \<and>
       FormField \<lparr>required = True, label = Some ''title [Textarea] via make_field (en)'',
                  language_code = Some ''en''\<rparr> =
       FormField (base\<lparr>required := (c = PARLER_DEFAULT_LANGUAGE_CODE test_settings),
                        label := Some (l @ '' ('' @ c @ '')''),
                        language_code := Some c\<rparr>))"
proof -
  let ?v = "FormField \<lparr>required = True, label = Some ''title [Textarea] via make_field (en)'',
                        language_code = Some ''en''\<rparr> :: string attr_value"
  from title_form_created obtain st where
    made: "metaclass_new described_form_field no_mro_attribute test_settings (Some base_form_meta) []
          title_attrs = Inr (Handled st)"
    and entry: "map_of (attrs st) ''title_en'' = Some ?v"
    by blast
  have absent: "map_of title_attrs ''title_en'' = None"
    by (simp add: title_attrs_def)
  then have fresh: "map_of title_attrs ''title_en'' \<noteq> Some ?v"
    by simp
  from per_language_field_attributes [OF made entry fresh] made entry absent
  show ?thesis by blast
qed

text \<open>
  Claim C1, at a form whose \<open>Meta.fields\<close> lists two translated fields of one
  translations model. Both fields are eligible and the metaclass stores a form field per
  language for each of them, but \<open>Meta.fields\<close> ends as
  \<open>('title', 'slug_nl', 'slug_de', 'slug_en')\<close>: the second replacement starts again from
  the \<open>fields\<close> read before the loop, so the first field's name is back and its
  per-language names are gone.
\<close>

theorem meta_fields_keeps_first_translated_field:
  "\<exists>st. metaclass_new plain_form_field no_mro_attribute test_settings (Some base_form_meta) []
          [(''Meta'', MetaClass article_meta)] = Inr (Handled st) \<and>
     getattr_fields st = FieldsSeq [''title'', ''slug_nl'', ''slug_de'', ''slug_en''] \<and>
     map fst (attrs st) =
       [''Meta'', ''title_nl'', ''title_de'', ''title_en'', ''slug_nl'', ''slug_de'', ''slug_en'']"
  by (simp add: metaclass_new_def get_form_new_meta_def detect_placeholders_def
      handle_translation_model_def handle_field_def field_kwargs_def declared_widgets_def
      getattr_fields_def getattr_exclude_def getattr_widgets_def setattr_fields_def
      get_translated_fields_names_def get_available_language_codes_def format_name_def
      zip_star_1_def replace_field_def get_default_language_def Let_def
      article_meta_def article_model_def article_translation_def
      base_form_meta_def test_settings_def plain_form_field_def no_mro_attribute_def)

text \<open>
  A placeholder in the class dictionary that is named after a translated field of one of
  the translations models makes \<open>__new__\<close> raise, whatever the other attributes are.
\<close>

lemma handle_fields_placeholder:
  "f_name \<in> set fs \<Longrightarrow> f_name \<in> set tfs \<Longrightarrow>
   \<exists>e. handle_fields gmff mro s tm bf tfs flds exclude widgets cb fs st = Inl e"
proof (induction fs arbitrary: st)
  case Nil
  then show ?case by simp
next
  case (Cons f rest)
  show ?case
  proof (cases "handle_field gmff mro s tm bf tfs flds exclude widgets cb f st")
    case (Inl e)
    then show ?thesis by simp
  next
    case (Inr st1)
    with Cons.prems have "f \<noteq> f_name"
      by (auto simp: handle_field_def)
    with Cons.prems have "f_name \<in> set rest" by simp
    from Cons.IH [OF this Cons.prems(2)] Inr show ?thesis by simp
  qed
qed

lemma handle_models_placeholder:
  "tm \<in> set tms \<Longrightarrow> f_name \<in> set (get_translated_fields tm) \<Longrightarrow> f_name \<in> set tfs \<Longrightarrow>
   \<exists>e. handle_models gmff mro s bf tfs tms st = Inl e"
proof (induction tms arbitrary: st)
  case Nil
  then show ?case by simp
next
  case (Cons t rest)
  show ?case
  proof (cases "handle_translation_model gmff mro s t bf tfs st")
    case (Inl e)
    then show ?thesis by simp
  next
    case (Inr st1)
    have "t \<noteq> tm"
    proof
      assume "t = tm"
      with Cons.prems(2,3) handle_fields_placeholder [of f_name "get_translated_fields tm" tfs]
      have "\<exists>e. handle_translation_model gmff mro s t bf tfs st = Inl e"
        by (simp add: handle_translation_model_def Let_def)
      with Inr show False by simp
    qed
    with Cons.prems(1) have "tm \<in> set rest" by simp
    from Cons.IH [OF this Cons.prems(2,3)] Inr show ?thesis by simp
  qed
qed

lemma metaclass_new_placeholder:
  assumes "map_of attrs0 ''Meta'' = Some (MetaClass mc)" "mc_model mc = Some (Some model)"
    and "tm \<in> set (get_all_models model)" "f_name \<in> set (get_translated_fields tm)"
    and "(f_name, TranslatedField kw) \<in> set attrs0"
  shows "\<exists>e. metaclass_new gmff mro s (Some fm) bf attrs0 = Inl e"
proof -
  from assms(5) have "f_name \<in> set (detect_placeholders attrs0)"
    unfolding detect_placeholders_def by force
  from handle_models_placeholder [OF assms(3,4) this]
  obtain e where "handle_models gmff mro s bf (detect_placeholders attrs0) (get_all_models model)
      \<lparr>attrs = attrs0, form_new_meta = Declared mc, form_meta = fm\<rparr> = Inl e" by blast
  with assms(1,2) show ?thesis
    by (simp add: metaclass_new_def get_form_new_meta_def Let_def)
qed

text \<open>
  Claim C8, at a form that declares \<open>title = TranslatedField(label='Title')\<close> for the
  translated field \<open>title\<close>: the metaclass raises \<open>TypeError\<close>, because it subscripts the
  list of placeholder names with the field name, and builds no form field.
\<close>

theorem placeholder_raises_type_error:
  "metaclass_new plain_form_field no_mro_attribute test_settings (Some base_form_meta) []
     [(''Meta'', MetaClass article_meta), (''title'', TranslatedField [''label'' \<mapsto> ''Title''])]
   = Inl TypeError"
  by (simp add: metaclass_new_def get_form_new_meta_def detect_placeholders_def
      article_meta_def article_model_def article_translation_def
      handle_translation_model_def handle_field_def getattr_fields_def getattr_exclude_def
      getattr_widgets_def declared_widgets_def base_form_meta_def Let_def)

section \<open>The registry and its root\<close>

lemma extensions_first:
  "extensions po \<noteq> [] \<and> extensions po ! 0 = top_most po"
proof (induction po rule: extensions.induct)
  case (1 m)
  show ?case by simp
next
  case (2 b m)
  then show ?case by (simp add: nth_append)
qed

lemma root_top_most: "root po = Inr (top_most po)"
  using extensions_first [of po] by (simp add: root_def getitem_def)

text \<open>
  Claim C2. For every model of an inheritance chain of translatable models, the root of
  its registry is the entry of the top-most level of the chain, and
  \<open>root_translations_name\<close> is the translations name of that entry; so the root of a
  derived model's registry is the root of its base model's registry.
\<close>

theorem root_resolves_to_top_most:
  "root po = Inr (top_most po) \<and>
   root_translations_name po = Inr (translations_name (top_most po)) \<and>
   root (ParlerOptions (Some b) m) = root b"
  by (simp add: root_top_most root_translations_name_def)

text \<open>
  Claim C3. The registry of a proxy model that declares its own translations, on a base
  model with one translation source: it has length 2, the base's entry at index 0 and the
  proxy's at index 1, and its root is the root of the base's registry. On any base, the
  entries of the proxy's registry are the entries of the base's registry with the proxy's
  entry stacked after them.
\<close>

theorem proxy_registry_stacks_on_base:
  "len (ParlerOptions (Some (ParlerOptions None b)) p) = 2 \<and>
   getitem (ParlerOptions (Some (ParlerOptions None b)) p) 0 = Inr b \<and>
   getitem (ParlerOptions (Some (ParlerOptions None b)) p) 1 = Inr p \<and>
   root (ParlerOptions (Some (ParlerOptions None b)) p) = root (ParlerOptions None b) \<and>
   extensions (ParlerOptions (Some bs) p) = extensions bs @ [p] \<and>
   len (ParlerOptions (Some bs) p) = len bs + 1 \<and>
   root (ParlerOptions (Some bs) p) = root bs"
  by (simp add: len_def getitem_def root_top_most)

section \<open>The queryset of the article list\<close>

lemma set_apply_lookup:
  "set (apply_lookup l rows) =
     {a \<in> set rows. case l of
        Published_eq b \<Rightarrow> published a = b
      | Translations_data_has c \<Rightarrow> c \<in> set (art_translations_data a)
      | Translations_language_code_eq c \<Rightarrow> c \<in> set (art_translations a)}"
  by (cases l) (auto simp: filter_empty_conv)

text \<open>
  Claim C7. The queryset of the article list view carries two filters, \<open>published=True\<close>
  of \<open>BaseArticleMixin\<close> and then \<open>translations_data__has=language\<close> when
  \<open>PARLER_BACKEND\<close> is \<open>'json'\<close>, \<open>translations__language_code=language\<close> otherwise; and
  the articles it yields are exactly the published articles that have a translation in
  the active language.
\<close>

theorem article_list_queryset:
  "qs_filters (ArticleListView_get_queryset s language all_articles) =
     [Published_eq True,
      if PARLER_BACKEND s = ''json'' then Translations_data_has language
      else Translations_language_code_eq language] \<and>
   set (evaluate (ArticleListView_get_queryset s language all_articles)) =
     spec_article_list s language all_articles"
  by (auto simp: ArticleListView_get_queryset_def BaseArticleMixin_get_queryset_def
      filter_qs_def JSON_BACKEND_def evaluate_def set_apply_lookup spec_article_list_def
      has_translation_def)

end
